theory Spec2Isabelle
  imports Complex_Main
begin

section \<open>EagleFrac: pressurized phase-field fracture driver\<close>

text \<open>
  A shallow embedding of \<^verbatim>\<open>src/eaglefrac-pressurized.cc\<close> and of the
  \<^verbatim>\<open>phase_field::PhaseFieldSolver\<close> assembly routines that accompany it.
  The C++ type \<^verbatim>\<open>double\<close> is idealised as \<^typ>\<open>real\<close>; the MPI run is read on one
  process, where every collective reduction is the identity.
\<close>

subsection \<open>Tensors\<close>

text \<open>
  A \<^verbatim>\<open>SymmetricTensor<2,dim>\<close> is read through its accessor \<^verbatim>\<open>t[i][j]\<close>: a function
  of two indices, of which the entries below \<open>dim\<close> are meaningful. Writing one
  entry of a symmetric tensor writes its mirror image too. The template parameter
  \<open>dim\<close> is the explicit argument \<open>d\<close>.
\<close>

type_synonym tensor = "nat \<Rightarrow> nat \<Rightarrow> real"

definition tzero :: tensor where
  "tzero = (\<lambda>i j. 0)"

definition tscale :: "real \<Rightarrow> tensor \<Rightarrow> tensor" where
  "tscale c t = (\<lambda>i j. c * t i j)"

definition tadd :: "tensor \<Rightarrow> tensor \<Rightarrow> tensor" where
  "tadd a b = (\<lambda>i j. a i j + b i j)"

definition tsub :: "tensor \<Rightarrow> tensor \<Rightarrow> tensor" where
  "tsub a b = (\<lambda>i j. a i j - b i j)"

definition tidentity :: tensor where
  "tidentity = (\<lambda>i j. if i = j then 1 else 0)"

definition tset :: "tensor \<Rightarrow> nat \<Rightarrow> nat \<Rightarrow> real \<Rightarrow> tensor" where
  "tset t i j v = (\<lambda>a b. if (a = i \<and> b = j) \<or> (a = j \<and> b = i) then v else t a b)"

text \<open>\<^verbatim>\<open>t[i][j] += x\<close>\<close>

definition tincr :: "tensor \<Rightarrow> nat \<Rightarrow> nat \<Rightarrow> real \<Rightarrow> tensor" where
  "tincr t i j x = tset t i j (t i j + x)"

definition trace :: "nat \<Rightarrow> tensor \<Rightarrow> real" where
  "trace d t = (\<Sum>i<d. t i i)"

text \<open>The product \<^verbatim>\<open>a*b\<close> of two symmetric tensors of rank 2 is the double contraction.\<close>

definition dcontract :: "nat \<Rightarrow> tensor \<Rightarrow> tensor \<Rightarrow> real" where
  "dcontract d a b = (\<Sum>i<d. \<Sum>j<d. a i j * b i j)"

text \<open>\<^verbatim>\<open>contract(u, v)\<close> of two rank-1 tensors, held as lists of \<open>dim\<close> components.\<close>

definition contract :: "real list \<Rightarrow> real list \<Rightarrow> real" where
  "contract u v = (\<Sum>(x, y)\<leftarrow>zip u v. x * y)"

subsection \<open>Material constants of namespace \<^verbatim>\<open>phase_field\<close>\<close>

definition mu :: real where
  "mu = 1000"

definition lambda :: real where
  "lambda = 1000000"

definition kappa :: real where
  "kappa = 1 / 10 ^ 12"

definition gamma_c :: real where
  "gamma_c = 1"

text \<open>The source's constant \<^verbatim>\<open>e\<close> (regularization length).\<close>

definition e_reg :: real where
  "e_reg = 1 / 10 ^ 6"

subsection \<open>\<^verbatim>\<open>PhaseFieldSolver::get_stress_decomposition\<close>\<close>

text \<open>
  \<^verbatim>\<open>constitutive_model::get_strain_tensor_plus\<close> lives in \<^verbatim>\<open>ConstitutiveModel.cc\<close>; the
  decomposition takes it as the argument \<open>gstp\<close>. The two output references are
  returned as a pair \<open>(stress_tensor_plus, stress_tensor_minus)\<close>. The Lame term is
  added to the entries \<open>[0][0]\<close> and \<open>[1][1]\<close>, as the source writes them.
\<close>

definition get_stress_decomposition ::
  "nat \<Rightarrow> (tensor \<Rightarrow> tensor) \<Rightarrow> tensor \<Rightarrow> tensor \<times> tensor" where
  "get_stress_decomposition d gstp strain_tensor =
     (let strain_tensor_plus = gstp strain_tensor;
          trace_eps = trace d strain_tensor;
          trace_eps_pos = max trace_eps 0;
          sp0 = tscale (2 * mu) strain_tensor_plus;
          sp1 = tincr sp0 0 0 (lambda * trace_eps_pos);
          stress_tensor_plus = tincr sp1 1 1 (lambda * trace_eps_pos);
          sm0 = tscale (2 * mu) (tsub strain_tensor strain_tensor_plus);
          sm1 = tincr sm0 0 0 (lambda * (trace_eps - trace_eps_pos));
          stress_tensor_minus = tincr sm1 1 1 (lambda * (trace_eps - trace_eps_pos))
      in (stress_tensor_plus, stress_tensor_minus))"

text \<open>
  Modelled from the spec: what the eigen-solver inside
  \<^verbatim>\<open>constitutive_model::get_strain_tensor_plus\<close> delivers. The source of that function
  (\<^verbatim>\<open>ConstitutiveModel.cc\<close>) is not part of the files at hand. An eigen-system of a
  symmetric \<open>d\<times>d\<close> tensor is its \<open>d\<close> eigenvalues with \<open>d\<close> eigenvectors; it is a
  spectral decomposition of \<open>t\<close> when the eigenvectors are orthonormal and \<open>t\<close> is the
  sum of the eigenvalues times the dyads of their eigenvectors.
\<close>

type_synonym eigen_system = "(nat \<Rightarrow> real) \<times> (nat \<Rightarrow> nat \<Rightarrow> real)"

definition is_eigen_decomposition :: "nat \<Rightarrow> eigen_system \<Rightarrow> tensor \<Rightarrow> bool" where
  "is_eigen_decomposition d es t \<longleftrightarrow>
     (\<forall>k<d. \<forall>l<d. (\<Sum>i<d. snd es k i * snd es l i) = (if k = l then 1 else 0))
     \<and> (\<forall>i<d. \<forall>j<d. t i j = (\<Sum>k<d. fst es k * snd es k i * snd es k j))"

text \<open>
  Modelled from the spec: \<^verbatim>\<open>constitutive_model::get_strain_tensor_plus\<close>, which is missing
  with \<^verbatim>\<open>ConstitutiveModel.cc\<close>. The spec: the positive-semidefinite part of the strain,
  by spectral clipping of negative eigenvalues to zero. The eigen-solver is the
  argument \<open>eigen\<close>; the result is the sum of the dyads of the eigenvectors, each
  weighted with its eigenvalue where that is positive and with zero otherwise.
\<close>

definition get_strain_tensor_plus :: "nat \<Rightarrow> (tensor \<Rightarrow> eigen_system) \<Rightarrow> tensor \<Rightarrow> tensor" where
  "get_strain_tensor_plus d eigen strain_tensor =
     (\<lambda>i j. \<Sum>k<d. max (fst (eigen strain_tensor) k) 0
                    * snd (eigen strain_tensor) k i * snd (eigen strain_tensor) k j)"

text \<open>
  Sample strains with their eigen-systems. A unit stretch along the third axis. A
  \<open>3\<times>3\<close> strain with the eigenvalues 1, 0 and 1/5 on the axes \<open>(3/5, 4/5, 0)\<close>,
  \<open>(-4/5, 3/5, 0)\<close> and \<open>(0, 0, 1)\<close>. A \<open>2\<times>2\<close> strain with the eigenvalues 1 and -1 on
  the axes \<open>(3/5, 4/5)\<close> and \<open>(-4/5, 3/5)\<close>.
\<close>

definition eps_zz :: tensor where
  "eps_zz = (\<lambda>i j. if i = 2 \<and> j = 2 then 1 else 0)"

definition eps_rot3 :: tensor where
  "eps_rot3 = (\<lambda>i j.
     if i = 0 \<and> j = 0 then 9 / 25
     else if (i = 0 \<and> j = 1) \<or> (i = 1 \<and> j = 0) then 12 / 25
     else if i = 1 \<and> j = 1 then 16 / 25
     else if i = 2 \<and> j = 2 then 1 / 5
     else 0)"

definition eigen_rot3 :: "tensor \<Rightarrow> eigen_system" where
  "eigen_rot3 t =
     ((\<lambda>k. if k = 0 then 1 else if k = 1 then 0 else 1 / 5),
      (\<lambda>k i. if k = 0 then (if i = 0 then 3 / 5 else if i = 1 then 4 / 5 else 0)
             else if k = 1 then (if i = 0 then - 4 / 5 else if i = 1 then 3 / 5 else 0)
             else (if i = 2 then 1 else 0)))"

definition eps_shear2 :: tensor where
  "eps_shear2 = (\<lambda>i j.
     if i = 0 \<and> j = 0 then - 7 / 25
     else if (i = 0 \<and> j = 1) \<or> (i = 1 \<and> j = 0) then 24 / 25
     else if i = 1 \<and> j = 1 then 7 / 25
     else 0)"

definition eigen_shear2 :: "tensor \<Rightarrow> eigen_system" where
  "eigen_shear2 t =
     ((\<lambda>k. if k = 0 then 1 else - 1),
      (\<lambda>k i. if k = 0 then (if i = 0 then 3 / 5 else 4 / 5)
             else (if i = 0 then - 4 / 5 else 3 / 5)))"

text \<open>The eigen-system of the zero tensor on the coordinate axes.\<close>

definition eigen_axes :: "tensor \<Rightarrow> eigen_system" where
  "eigen_axes t = ((\<lambda>k. 0), (\<lambda>k i. if k = i then 1 else 0))"

subsection \<open>\<^verbatim>\<open>parse_command_line\<close> and \<^verbatim>\<open>main\<close>\<close>

text \<open>
  \<^verbatim>\<open>argv\<close> is the list of its \<open>argc\<close> strings, the program name first. The function
  either leaves the process through \<^verbatim>\<open>exit(1)\<close> or returns the file name; what it wrote
  to \<^verbatim>\<open>std::cout\<close> comes with either result. The counter \<^verbatim>\<open>arg_number\<close> runs from 1
  to at most \<open>argc\<close>, so the \<^verbatim>\<open>int\<close> never overflows and is read as an integer.
\<close>

datatype 'a exit_or = Exit int | Return 'a

text \<open>The \<^verbatim>\<open>while (args.size())\<close> loop: one round per remaining argument.\<close>

fun drain_args :: "string list \<Rightarrow> int \<Rightarrow> string \<Rightarrow> string" where
  "drain_args [] arg_number filename = filename"
| "drain_args (front # args) arg_number filename =
     drain_args args (arg_number + 1) (if arg_number = 1 then front else filename)"

definition parse_command_line :: "int \<Rightarrow> string list \<Rightarrow> string list \<times> string exit_or" where
  "parse_command_line argc argv =
     (if argc < 2 then ([''specify the file name''], Exit 1)
      else ([], Return (drain_args (map (\<lambda>i. argv ! i) [1..<nat argc]) 1 [])))"

text \<open>
  \<^verbatim>\<open>main\<close>, as the sequence of what it sets up. \<^verbatim>\<open>exit\<close> inside \<^verbatim>\<open>parse_command_line\<close>
  ends the process at once; otherwise the problem object is constructed and run, and
  an exception escaping \<^verbatim>\<open>run\<close> (\<open>run_throws\<close>) turns the return value into 1.
\<close>

datatype main_event =
  MpiInitFinalize
  | Cout string
  | ConstructProblem string
  | RunProblem string

definition main :: "(string \<Rightarrow> bool) \<Rightarrow> int \<Rightarrow> string list \<Rightarrow> main_event list \<times> int" where
  "main run_throws argc argv =
     (case parse_command_line argc argv of
        (out, Exit code) \<Rightarrow> (MpiInitFinalize # map Cout out, code)
      | (out, Return input_file_name) \<Rightarrow>
          (MpiInitFinalize # map Cout out
             @ [ConstructProblem input_file_name, RunProblem input_file_name],
           if run_throws input_file_name then 1 else 0))"

subsection \<open>The state of \<^verbatim>\<open>PDSSolid\<close>\<close>

text \<open>
  Global vectors are lists of reals, an \<^verbatim>\<open>IndexSet\<close> is a set of indices. The
  record holds the members \<^verbatim>\<open>run\<close> and its helpers read or write by name; the
  triangulation, the degree-of-freedom handlers, the matrices and the constraints,
  which only library and solver routines touch, are the one component \<open>mesh\<close> of an
  arbitrary type.
\<close>

type_synonym vec = "real list"

type_synonym index_set = "nat set"

record 'm solid =
  mesh :: 'm
  solution :: vec
  old_solution :: vec
  old_old_solution :: vec
  relevant_solution :: vec
  residual :: vec
  active_set :: index_set
  use_old_time_step_phi :: bool
  pressure_owned_solution :: vec
  pressure_relevant_solution :: vec
  stresses :: "vec list"

text \<open>The part of \<^verbatim>\<open>InputData::PhaseFieldPressurizedData\<close> that \<^verbatim>\<open>run\<close> reads.\<close>

record input_data =
  t_max :: real
  get_time_step :: "real \<Rightarrow> real"
  pressure_function :: "real \<Rightarrow> real"
  max_newton_iter :: int
  newton_tolerance :: real
  minimum_time_step :: real
  n_adaptive_steps :: int
  phi_refinement_value :: real
  initial_refinement_level :: int
  displacement_boundary_labels :: "int list"
  displacement_boundary_components :: "int list"
  displacement_boundary_values :: "real list"
  displacement_points :: "real list list"
  displacement_point_components :: "int list"
  displacement_point_velocities :: "real list"
  constraint_point_phase_field :: "bool list"

text \<open>
  The routines of \<^verbatim>\<open>PhaseFieldSolver\<close>, \<^verbatim>\<open>WidthSolver\<close>, \<^verbatim>\<open>Mesher\<close> and deal.II that
  \<^verbatim>\<open>run\<close> calls and whose source is elsewhere: parameters of the model, each a
  function of the state it may change.
\<close>

record 'm collaborators =
  update_old_solution :: "'m solid \<Rightarrow> 'm solid"
  impose_displacement ::
    "int list \<Rightarrow> int list \<Rightarrow> real list \<Rightarrow> real list list \<Rightarrow> int list \<Rightarrow> real list
     \<Rightarrow> bool list \<Rightarrow> 'm solid \<Rightarrow> 'm solid"
  assemble_coupled_system ::
    "vec \<Rightarrow> vec \<Rightarrow> real \<times> real \<Rightarrow> bool \<Rightarrow> bool \<Rightarrow> 'm solid \<Rightarrow> 'm solid"
  compute_active_set :: "vec \<Rightarrow> 'm solid \<Rightarrow> 'm solid"
  all_constraints_set_zero :: "'m solid \<Rightarrow> 'm solid"
  residual_norm :: "'m solid \<Rightarrow> real"
  solve_coupled_newton_step :: "vec \<Rightarrow> real \<times> real \<Rightarrow> 'm solid \<Rightarrow> (nat \<times> nat) \<times> 'm solid"
  prepare_phase_field_refinement :: "real \<Rightarrow> int \<Rightarrow> 'm solid \<Rightarrow> bool \<times> 'm solid"
  execute_coarsening_and_refinement :: "'m \<Rightarrow> 'm"
  phase_field_setup_dofs :: "'m solid \<Rightarrow> 'm solid"
  width_setup_dofs :: "'m solid \<Rightarrow> 'm solid"
  distribute_pressure_dofs :: "'m \<Rightarrow> 'm"
  n_pressure_dofs :: "'m \<Rightarrow> nat"
  n_active_cells :: "'m \<Rightarrow> nat"
  interpolate :: "'m \<Rightarrow> 'm \<Rightarrow> vec \<Rightarrow> vec"
  solve_width :: "'m solid \<Rightarrow> 'm solid"
  output_results :: "int \<Rightarrow> real \<Rightarrow> 'm solid \<Rightarrow> 'm solid"
  execute_postprocessing :: "int \<Rightarrow> real \<Rightarrow> 'm solid \<Rightarrow> 'm solid"

subsection \<open>\<^verbatim>\<open>PDSSolid::impose_displacement_on_solution\<close>\<close>

text \<open>
  One value for every boundary label and one for every constrained point, the
  velocity of the point times the time. The two loops read \<^verbatim>\<open>displacement_boundary_values[i]\<close>
  and \<^verbatim>\<open>displacement_point_velocities[i]\<close> without a bounds check; the input holds one
  value per label and one velocity per point. The type of
  \<^verbatim>\<open>constraint_point_phase_field\<close> is not in the files at hand; it is passed on as it is.
\<close>

definition impose_displacement_on_solution ::
  "'m collaborators \<Rightarrow> input_data \<Rightarrow> real \<Rightarrow> 'm solid \<Rightarrow> 'm solid" where
  "impose_displacement_on_solution env data time s =
     (let n_displacement_conditions = length (displacement_boundary_labels data);
          displacement_values =
            map (\<lambda>i. displacement_boundary_values data ! i) [0..<n_displacement_conditions];
          n_displacement_node_conditions = length (displacement_points data);
          displacement_point_values =
            map (\<lambda>i. displacement_point_velocities data ! i * time)
              [0..<n_displacement_node_conditions]
      in impose_displacement env (displacement_boundary_labels data)
           (displacement_boundary_components data) displacement_values
           (displacement_points data) (displacement_point_components data)
           displacement_point_values (constraint_point_phase_field data) s)"

subsection \<open>\<^verbatim>\<open>PDSSolid::setup_dofs\<close>\<close>

text \<open>
  The two solvers set up their own degrees of freedom, the pressure handler
  distributes its own; the ghosted and the owned pressure vector are reinitialised
  to the new number of pressure degrees of freedom, and the \<open>dim\<close> stress vectors to
  the number of active cells. \<^verbatim>\<open>main\<close> runs \<^verbatim>\<open>PDSSolid<2>\<close>, so \<open>dim\<close> is 2 here.
\<close>

definition setup_dofs :: "'m collaborators \<Rightarrow> 'm solid \<Rightarrow> 'm solid" where
  "setup_dofs env s =
     (let s1 = phase_field_setup_dofs env s;
          s2 = width_setup_dofs env s1;
          s3 = s2\<lparr>mesh := distribute_pressure_dofs env (mesh s2)\<rparr>;
          s4 = s3\<lparr>pressure_relevant_solution := replicate (n_pressure_dofs env (mesh s3)) 0\<rparr>;
          s5 = s4\<lparr>pressure_owned_solution := replicate (n_pressure_dofs env (mesh s4)) 0\<rparr>
      in s5\<lparr>stresses := replicate 2 (replicate (n_active_cells env (mesh s5)) 0)\<rparr>)"

subsection \<open>\<^verbatim>\<open>PDSSolid::exectute_adaptive_refinement\<close>\<close>

text \<open>
  The \<^verbatim>\<open>SolutionTransfer\<close> object keeps what \<^verbatim>\<open>prepare_for_coarsening_and_refinement\<close>
  was given, on the mesh of that moment; \<^verbatim>\<open>interpolate\<close> carries each stored vector to
  the mesh and degrees of freedom of the moment it is called. The function returns,
  with the new state, the calls it made on the transfer object, the triangulation and
  \<^verbatim>\<open>setup_dofs\<close>, in the order it made them; the first carries the vectors handed over.
\<close>

datatype transfer_call =
  PrepareForCoarseningAndRefinement "vec list"
  | ExecuteCoarseningAndRefinement
  | SetupDofs
  | Interpolate

definition exectute_adaptive_refinement ::
  "'m collaborators \<Rightarrow> 'm solid \<Rightarrow> transfer_call list \<times> 'm solid" where
  "exectute_adaptive_refinement env s =
     (let s1 = s\<lparr>relevant_solution := solution s\<rparr>;
          tmp = [relevant_solution s1, old_solution s1, old_old_solution s1];
          mesh_before = mesh s1;
          calls1 = [PrepareForCoarseningAndRefinement tmp];
          s2 = s1\<lparr>mesh := execute_coarsening_and_refinement env (mesh s1)\<rparr>;
          calls2 = calls1 @ [ExecuteCoarseningAndRefinement];
          s3 = setup_dofs env s2;
          calls3 = calls2 @ [SetupDofs];
          tmp1 = map (interpolate env mesh_before (mesh s3)) tmp;
          calls4 = calls3 @ [Interpolate];
          s4 = s3\<lparr>solution := tmp1 ! 0\<rparr>;
          tmp_owned1 = tmp1 ! 1;
          tmp_owned2 = tmp1 ! 2
      in (calls4, s4\<lparr>old_solution := tmp_owned1, old_old_solution := tmp_owned2\<rparr>))"

subsection \<open>The Newton loop of \<^verbatim>\<open>PDSSolid::run\<close>\<close>

text \<open>
  Modelled from the spec: \<^verbatim>\<open>PhaseFieldSolver::active_set_changed\<close>, declared in
  \<^verbatim>\<open>PhaseFieldSolver.hpp\<close>, which is not part of the files at hand. The spec gives the
  rule of the source as: converged if and only if the active-set membership is
  unchanged from the previous iteration and the residual norm is below the
  tolerance. In the source the call is the first conjunct of that rule, and the
  branch the rule guards prints \<^verbatim>\<open>Converged!\<close>: the call is true exactly when the
  solver's active set equals the set passed in.
\<close>

definition active_set_changed :: "'m solid \<Rightarrow> index_set \<Rightarrow> bool" where
  "active_set_changed s old_active_set \<longleftrightarrow> active_set s = old_active_set"

text \<open>The evaluation made at every iteration but the first: residual without matrix,
  pressure included; new active set; residual zeroed at constrained entries.\<close>

definition newton_evaluate :: "'m collaborators \<Rightarrow> real \<times> real \<Rightarrow> 'm solid \<Rightarrow> 'm solid" where
  "newton_evaluate env time_steps s =
     (let s1 = assemble_coupled_system env (solution s) (pressure_relevant_solution s)
                 time_steps True False s;
          s2 = compute_active_set env (solution s1) s1
      in all_constraints_set_zero env s2)"

text \<open>The break condition, as the source writes it.\<close>

definition break_condition ::
  "'m collaborators \<Rightarrow> input_data \<Rightarrow> index_set \<Rightarrow> 'm solid \<Rightarrow> bool" where
  "break_condition env data old_active_set s \<longleftrightarrow>
     active_set_changed s old_active_set \<and> residual_norm env s < newton_tolerance data"

text \<open>The linear solve and update that ends every iteration without a break.\<close>

definition newton_update :: "'m collaborators \<Rightarrow> real \<times> real \<Rightarrow> 'm solid \<Rightarrow> 'm solid" where
  "newton_update env time_steps s =
     (let s1 = snd (solve_coupled_newton_step env (pressure_relevant_solution s) time_steps s)
      in s1\<lparr>relevant_solution := solution s1\<rparr>)"

text \<open>
  \<^verbatim>\<open>while (newton_step < data.max_newton_iter)\<close>, entered with \<open>newton_step = 0\<close>. The
  result is the value of \<open>newton_step\<close> when the loop is left, by \<^verbatim>\<open>break\<close> or by its
  condition, and the state then.
\<close>

function newton_loop ::
  "'m collaborators \<Rightarrow> input_data \<Rightarrow> real \<times> real \<Rightarrow> int \<Rightarrow> index_set \<Rightarrow> 'm solid
   \<Rightarrow> int \<times> 'm solid" where
  "newton_loop env data time_steps newton_step old_active_set s =
     (if newton_step < max_newton_iter data then
        (if newton_step > 0 then
           (if break_condition env data old_active_set (newton_evaluate env time_steps s)
            then (newton_step, newton_evaluate env time_steps s)
            else newton_loop env data time_steps (newton_step + 1)
                   (active_set (newton_evaluate env time_steps s))
                   (newton_update env time_steps (newton_evaluate env time_steps s)))
         else newton_loop env data time_steps (newton_step + 1) old_active_set
                (newton_update env time_steps s))
      else (newton_step, s))"
  by pat_completeness auto
termination
  by (relation "measure (\<lambda>(env, data, time_steps, newton_step, old_active_set, s).
        nat (max_newton_iter data - newton_step))") auto

declare newton_loop.simps [simp del]

subsection \<open>One pass from the label \<^verbatim>\<open>redo_time_step\<close>\<close>

text \<open>
  The local variables of \<^verbatim>\<open>run\<close> that outlive one pass, with the object's state.
  \<open>newton_step\<close> never passes the cap, an \<^verbatim>\<open>int\<close> itself; the step counter is read as
  an integer without bound.
\<close>

record 'm run_state =
  time :: real
  time_step :: real
  old_time_step :: real
  time_step_number :: int
  pds :: "'m solid"

datatype run_error = NoConvergence

text \<open>How a pass ends: the step is accepted, or control jumps back to the label
  after a step cut or after a refinement.\<close>

datatype outcome = Accepted | RetrySmallerStep | RetryRefined

text \<open>\<^verbatim>\<open>pressure_owned_solution = pressure_value\<close> writes the value into every entry.\<close>

definition update_pressure :: "input_data \<Rightarrow> real \<Rightarrow> 'm solid \<Rightarrow> 'm solid" where
  "update_pressure data t s =
     (let pressure_value = pressure_function data t;
          s1 = s\<lparr>pressure_owned_solution := map (\<lambda>x. pressure_value) (pressure_owned_solution s)\<rparr>
      in s1\<lparr>pressure_relevant_solution := pressure_owned_solution s1\<rparr>)"

text \<open>The state in which the Newton loop of a pass is entered, and its result.\<close>

definition newton_start :: "'m collaborators \<Rightarrow> input_data \<Rightarrow> 'm run_state \<Rightarrow> 'm solid" where
  "newton_start env data r =
     impose_displacement_on_solution env data (time r) (update_pressure data (time r) (pds r))"

definition newton_result ::
  "'m collaborators \<Rightarrow> input_data \<Rightarrow> 'm run_state \<Rightarrow> int \<times> 'm solid" where
  "newton_result env data r =
     (let s = newton_start env data r;
          time_steps = (time_step r, old_time_step r);
          old_active_set = active_set s
      in newton_loop env data time_steps 0 old_active_set s)"

text \<open>\<^verbatim>\<open>// cut the time step if no convergence\<close>\<close>

definition cut_time_step :: "input_data \<Rightarrow> 'm run_state \<Rightarrow> 'm solid \<Rightarrow> run_error + 'm run_state" where
  "cut_time_step data r s =
     (if time_step r / 10 < minimum_time_step data then Inl NoConvergence
      else
        (let r1 = r\<lparr>time := time r - time_step r\<rparr>;
             r2 = r1\<lparr>time_step := time_step r1 / 10\<rparr>;
             r3 = r2\<lparr>time := time r2 + time_step r2\<rparr>
         in Inr (r3\<lparr>pds := s\<lparr>solution := old_solution s, use_old_time_step_phi := True\<rparr>\<rparr>)))"

text \<open>The end of an accepted pass: width solve, output, postprocessing.\<close>

definition accept_time_step :: "'m collaborators \<Rightarrow> 'm run_state \<Rightarrow> 'm solid \<Rightarrow> 'm run_state" where
  "accept_time_step env r s =
     (let s1 = solve_width env (s\<lparr>relevant_solution := solution s\<rparr>);
          s2 = output_results env (time_step_number r) (time r) s1;
          s3 = execute_postprocessing env (time_step_number r) (time r) s2
      in r\<lparr>old_time_step := time_step r, pds := s3\<lparr>use_old_time_step_phi := True\<rparr>\<rparr>)"

definition redo_time_step ::
  "'m collaborators \<Rightarrow> input_data \<Rightarrow> int \<Rightarrow> 'm run_state \<Rightarrow> run_error + outcome \<times> 'm run_state" where
  "redo_time_step env data max_refinement_level r =
     (let (newton_step, s) = newton_result env data r
      in if newton_step = max_newton_iter data then
           (case cut_time_step data r s of
              Inl err \<Rightarrow> Inl err
            | Inr r' \<Rightarrow> Inr (RetrySmallerStep, r'))
         else if n_adaptive_steps data > 0 then
           (let (needed, s') = prepare_phase_field_refinement env (phi_refinement_value data)
                                 max_refinement_level s
            in if needed
               then Inr (RetryRefined, r\<lparr>pds := snd (exectute_adaptive_refinement env s')\<rparr>)
               else Inr (Accepted, accept_time_step env r s'))
         else Inr (Accepted, accept_time_step env r s))"

subsection \<open>The time loop of \<^verbatim>\<open>PDSSolid::run\<close>\<close>

text \<open>The head of the \<^verbatim>\<open>while (time < data.t_max)\<close> body, before the label.\<close>

definition begin_time_step :: "'m collaborators \<Rightarrow> input_data \<Rightarrow> 'm run_state \<Rightarrow> 'm run_state" where
  "begin_time_step env data r =
     (let r1 = r\<lparr>time_step := get_time_step data (time r)\<rparr>;
          r2 = r1\<lparr>time := time r1 + time_step r1\<rparr>;
          r3 = r2\<lparr>time_step_number := time_step_number r2 + 1\<rparr>
      in r3\<lparr>pds := update_old_solution env (pds r3)\<rparr>)"

text \<open>
  The loop may go on for ever (a refinement that is always needed, a step that is cut
  without end under a non-positive minimum), so it runs on fuel: one unit per pass
  from the label, \<open>None\<close> when the fuel is spent. A thrown \<^verbatim>\<open>NoConvergence\<close> ends the
  run with \<open>Inl\<close>.
\<close>

fun run_passes ::
  "nat \<Rightarrow> 'm collaborators \<Rightarrow> input_data \<Rightarrow> int \<Rightarrow> 'm run_state
   \<Rightarrow> (run_error + 'm run_state) option" where
  "run_passes 0 env data max_refinement_level r = None"
| "run_passes (Suc fuel) env data max_refinement_level r =
     (case redo_time_step env data max_refinement_level r of
        Inl err \<Rightarrow> Some (Inl err)
      | Inr (Accepted, r') \<Rightarrow>
          (if time r' \<ge> t_max data then Some (Inr r')
           else if time r' < t_max data
             then run_passes fuel env data max_refinement_level (begin_time_step env data r')
             else Some (Inr r'))
      | Inr (RetrySmallerStep, r') \<Rightarrow> run_passes fuel env data max_refinement_level r'
      | Inr (RetryRefined, r') \<Rightarrow> run_passes fuel env data max_refinement_level r')"

text \<open>\<^verbatim>\<open>run\<close> from the initial values on: \<open>s0\<close> is the object after the mesh has been
  read and refined and the initial values interpolated.\<close>

definition run :: "nat \<Rightarrow> 'm collaborators \<Rightarrow> input_data \<Rightarrow> 'm solid
    \<Rightarrow> (run_error + 'm run_state) option" where
  "run fuel env data s0 =
     (let max_refinement_level = initial_refinement_level data + n_adaptive_steps data;
          time0 = 0;
          time_step0 = get_time_step data time0;
          r0 = \<lparr>time = time0, time_step = time_step0, old_time_step = time_step0,
                time_step_number = 0, pds = s0\<rparr>
      in if time r0 < t_max data
         then run_passes fuel env data max_refinement_level (begin_time_step env data r0)
         else Some (Inr r0))"

subsection \<open>\<^verbatim>\<open>PDSSolid::impose_pressure_values\<close>\<close>

text \<open>
  The function walks the active cells of the pressure and the phase-field handler
  side by side. Of a pair of cells it uses: whether the pressure cell is locally
  owned, the phase-field values \<^verbatim>\<open>get_function_values\<close> delivers at the quadrature
  points for a given solution vector, and the global indices of the pressure
  degrees of freedom of the cell. Neighbouring cells share degrees of freedom
  (\<^verbatim>\<open>FE_Q(1)\<close>), and the cells are visited in the order of the list.
\<close>

record cell_pair =
  is_locally_owned :: bool
  get_function_values :: "vec \<Rightarrow> real list"
  get_dof_indices :: "nat list"

text \<open>The mean over the \<open>n_q_points\<close> quadrature values.\<close>

definition mean_phi_value :: "real list \<Rightarrow> real" where
  "mean_phi_value phi_values = foldl (+) 0 phi_values / real (length phi_values)"

text \<open>The loop over \<open>dofs_per_cell\<close>: every listed entry of the vector gets the value.\<close>

fun set_dofs :: "nat list \<Rightarrow> real \<Rightarrow> vec \<Rightarrow> vec" where
  "set_dofs [] v p = p"
| "set_dofs (i # local_dof_indices) v p = set_dofs local_dof_indices v (p[i := v])"

fun impose_cells :: "real \<Rightarrow> vec \<Rightarrow> cell_pair list \<Rightarrow> vec \<Rightarrow> vec" where
  "impose_cells max_value phi_solution [] p = p"
| "impose_cells max_value phi_solution (c # cells) p =
     impose_cells max_value phi_solution cells
       (if is_locally_owned c
        then set_dofs (get_dof_indices c)
               (if mean_phi_value (get_function_values c phi_solution) < 9 / 10
                then max_value else 0) p
        else p)"

definition impose_pressure_values :: "cell_pair list \<Rightarrow> real \<Rightarrow> 'm solid \<Rightarrow> 'm solid" where
  "impose_pressure_values cells max_value s =
     (let s1 = s\<lparr>relevant_solution := solution s\<rparr>
      in s1\<lparr>pressure_owned_solution :=
              impose_cells max_value (relevant_solution s1) cells (pressure_owned_solution s1)\<rparr>)"

text \<open>The value the last locally owned cell that holds degree of freedom \<open>i\<close> decides
  for it, if there is such a cell.\<close>

fun last_owner_value :: "real \<Rightarrow> vec \<Rightarrow> cell_pair list \<Rightarrow> nat \<Rightarrow> real option" where
  "last_owner_value max_value phi_solution [] i = None"
| "last_owner_value max_value phi_solution (c # cells) i =
     (case last_owner_value max_value phi_solution cells i of
        Some v \<Rightarrow> Some v
      | None \<Rightarrow>
          (if is_locally_owned c \<and> i \<in> set (get_dof_indices c)
           then Some (if mean_phi_value (get_function_values c phi_solution) < 9 / 10
                      then max_value else 0)
           else None))"

subsection \<open>\<^verbatim>\<open>phase_field::PhaseFieldSolver::assemble_rhs_vector\<close>\<close>

text \<open>
  What \<^verbatim>\<open>FEValues\<close> delivers at one quadrature point of a cell: the strain of the
  solution, the phase field of the three solutions and its gradient, the weight
  \<^verbatim>\<open>JxW\<close>, and for every local degree of freedom \<open>i\<close> the symmetric gradient, value
  and gradient of its shape function.
\<close>

record qpoint =
  strain_tensor :: tensor
  phi_value :: real
  old_phi_value :: real
  old_old_phi_value :: real
  grad_phi_value :: "real list"
  JxW :: real
  symmetric_gradient :: "nat \<Rightarrow> tensor"
  shape_value :: "nat \<Rightarrow> real"
  shape_gradient :: "nat \<Rightarrow> real list"

text \<open>The summand of \<^verbatim>\<open>local_rhs[i] += ...\<close> at quadrature point \<open>qp\<close>.\<close>

definition local_rhs_summand :: "nat \<Rightarrow> (tensor \<Rightarrow> tensor) \<Rightarrow> qpoint \<Rightarrow> nat \<Rightarrow> real" where
  "local_rhs_summand d gstp qp i =
     (let (stress_tensor_plus, stress_tensor_minus) =
            get_stress_decomposition d gstp (strain_tensor qp);
          d_phi = old_phi_value qp - old_old_phi_value qp;
          phi_e = old_phi_value qp + d_phi;
          phi = phi_value qp;
          jxw = JxW qp;
          eps_u_i = symmetric_gradient qp i;
          xi_phi_i = shape_value qp i;
          grad_xi_phi_i = shape_gradient qp i
      in (((1 - kappa) * phi_e * phi_e + kappa) * dcontract d stress_tensor_plus eps_u_i
          + dcontract d stress_tensor_minus eps_u_i
          + (1 - kappa) * phi * dcontract d stress_tensor_plus (strain_tensor qp) * xi_phi_i
          + gamma_c * (- 1 / e_reg * (1 - phi) * xi_phi_i
                       + e_reg * contract (grad_phi_value qp) grad_xi_phi_i))
         * jxw)"

text \<open>The loops over \<open>q\<close> and \<open>i\<close> of one cell, from \<^verbatim>\<open>local_rhs = 0\<close>.\<close>

definition add_qpoint :: "nat \<Rightarrow> (tensor \<Rightarrow> tensor) \<Rightarrow> real list \<Rightarrow> qpoint \<Rightarrow> real list" where
  "add_qpoint d gstp local_rhs qp =
     map (\<lambda>i. local_rhs ! i + local_rhs_summand d gstp qp i) [0..<length local_rhs]"

definition cell_local_rhs :: "nat \<Rightarrow> (tensor \<Rightarrow> tensor) \<Rightarrow> nat \<Rightarrow> qpoint list \<Rightarrow> real list" where
  "cell_local_rhs d gstp dofs_per_cell qpoints =
     foldl (add_qpoint d gstp) (replicate dofs_per_cell 0) qpoints"

text \<open>
  The cell loop leaves by \<^verbatim>\<open>break\<close> after the first locally owned cell, and
  \<^verbatim>\<open>local_rhs\<close> is not written to any member: the function changes nothing. The
  model returns the \<^verbatim>\<open>local_rhs\<close> it computed, if it reached an owned cell. A cell is
  given by its ownership and its quadrature points.
\<close>

fun assemble_rhs_vector ::
  "nat \<Rightarrow> (tensor \<Rightarrow> tensor) \<Rightarrow> nat \<Rightarrow> (bool \<times> qpoint list) list \<Rightarrow> real list option" where
  "assemble_rhs_vector d gstp dofs_per_cell [] = None"
| "assemble_rhs_vector d gstp dofs_per_cell ((owned, qpoints) # cells) =
     (if owned then Some (cell_local_rhs d gstp dofs_per_cell qpoints)
      else assemble_rhs_vector d gstp dofs_per_cell cells)"

text \<open>The degradation function in the words of the spec: \<open>g = (1 - kappa) phi_e\<^sup>2 + kappa\<close>
  at the phase field extrapolated linearly from the two previous solutions.\<close>

definition spec_extrapolated_phi :: "real \<Rightarrow> real \<Rightarrow> real" where
  "spec_extrapolated_phi phi_old phi_old_old = phi_old + (phi_old - phi_old_old)"

definition spec_degradation :: "real \<Rightarrow> real" where
  "spec_degradation phi_e = (1 - kappa) * phi_e\<^sup>2 + kappa"

subsection \<open>A small instance\<close>

text \<open>
  Collaborators on which the model can be run. The mesh is its refinement level
  \<open>m\<close>, with \<open>m - 2\<close> degrees of freedom of every kind and as many cells; setting up
  the degrees of freedom zeroes the solver's vectors at the new size, and a vector
  is interpolated to a finer mesh by appending zeros. The residual of a solution is
  the solution itself, and one linear solve brings the solution to zero. Refinement
  is wanted below the maximum level. With \<open>settles\<close> the active set never moves;
  without, it differs after every evaluation.
\<close>

definition sample_env :: "bool \<Rightarrow> nat collaborators" where
  "sample_env settles =
     \<lparr>update_old_solution = (\<lambda>s. s\<lparr>old_old_solution := old_solution s, old_solution := solution s\<rparr>),
      impose_displacement = (\<lambda>labels components values points point_components point_values
                               constraint s. s),
      assemble_coupled_system = (\<lambda>u p time_steps include_pressure assemble_matrix s. s\<lparr>residual := u\<rparr>),
      compute_active_set =
        (\<lambda>u s. if settles then s else s\<lparr>active_set := (if active_set s = {} then {0} else {})\<rparr>),
      all_constraints_set_zero = (\<lambda>s. s),
      residual_norm = (\<lambda>s. sqrt (\<Sum>x\<leftarrow>residual s. x\<^sup>2)),
      solve_coupled_newton_step = (\<lambda>p time_steps s. ((1, 1), s\<lparr>solution := map (\<lambda>x. 0) (solution s)\<rparr>)),
      prepare_phase_field_refinement = (\<lambda>phi_value max_level s. (int (mesh s) < max_level, s)),
      execute_coarsening_and_refinement = Suc,
      phase_field_setup_dofs =
        (\<lambda>s. s\<lparr>solution := replicate (mesh s - 2) 0, old_solution := replicate (mesh s - 2) 0,
                old_old_solution := replicate (mesh s - 2) 0,
                relevant_solution := replicate (mesh s - 2) 0,
                residual := replicate (mesh s - 2) 0\<rparr>),
      width_setup_dofs = (\<lambda>s. s),
      distribute_pressure_dofs = (\<lambda>m. m),
      n_pressure_dofs = (\<lambda>m. m - 2),
      n_active_cells = (\<lambda>m. m - 2),
      interpolate = (\<lambda>m m' v. v @ replicate (m' - m) 0),
      solve_width = (\<lambda>s. s),
      output_results = (\<lambda>n t s. s),
      execute_postprocessing = (\<lambda>n t s. s)\<rparr>"

text \<open>The same with a settled active set and a linear solve that makes progress only
  with a step of at most \<open>1/1000\<close>.\<close>

definition sample_env_dt :: "nat collaborators" where
  "sample_env_dt =
     (sample_env True)
       \<lparr>solve_coupled_newton_step :=
          (\<lambda>p time_steps s.
             ((1, 1), if fst time_steps \<le> 1 / 1000
                      then s\<lparr>solution := map (\<lambda>x. 0) (solution s)\<rparr> else s))\<rparr>"

text \<open>The solver settings of the parameter file that comes with the sources, with a
  Newton cap of 3 in place of 100.\<close>

definition sample_data :: input_data where
  "sample_data =
     \<lparr>t_max = 1 / 100,
      get_time_step = (\<lambda>t. 1 / 100),
      pressure_function = (\<lambda>t. 100000),
      max_newton_iter = 3,
      newton_tolerance = 1 / 10 ^ 5,
      minimum_time_step = 1 / 10 ^ 9,
      n_adaptive_steps = 3,
      phi_refinement_value = 1 / 2,
      initial_refinement_level = 4,
      displacement_boundary_labels = [0, 1, 2, 3],
      displacement_boundary_components = [0, 0, 1, 1],
      displacement_boundary_values = [0, 0, 0, 0],
      displacement_points = [],
      displacement_point_components = [],
      displacement_point_velocities = [],
      constraint_point_phase_field = []\<rparr>"

text \<open>The same without adaptive steps and with the end time \<open>1/1000\<close>; and with a
  time-stepping table whose step \<open>1/10\<^sup>1\<^sup>0\<close> is below the minimum time step, up to the
  end of that one step.\<close>

definition sample_data_one_step :: input_data where
  "sample_data_one_step = sample_data\<lparr>t_max := 1 / 1000, n_adaptive_steps := 0\<rparr>"

definition sample_data_small_step :: input_data where
  "sample_data_small_step =
     sample_data\<lparr>t_max := 1 / 10 ^ 10, get_time_step := (\<lambda>t. 1 / 10 ^ 10), n_adaptive_steps := 0\<rparr>"

definition sample_solid :: "nat solid" where
  "sample_solid =
     \<lparr>mesh = 4,
      solution = [1, 0],
      old_solution = [0, 1],
      old_old_solution = [0, 0],
      relevant_solution = [1, 0],
      residual = [0, 0],
      active_set = {},
      use_old_time_step_phi = False,
      pressure_owned_solution = [0, 0],
      pressure_relevant_solution = [0, 0],
      stresses = [[0, 0], [0, 0]]\<rparr>"

text \<open>The run state at the first arrival at the label, and one whose step is already
  the minimum.\<close>

definition sample_run_state :: "nat run_state" where
  "sample_run_state =
     \<lparr>time = 1 / 100, time_step = 1 / 100, old_time_step = 1 / 100, time_step_number = 1,
      pds = sample_solid\<rparr>"

definition sample_run_state_min :: "nat run_state" where
  "sample_run_state_min =
     \<lparr>time = 1 / 100, time_step = 1 / 10 ^ 9, old_time_step = 1 / 100, time_step_number = 1,
      pds = sample_solid\<rparr>"

text \<open>One intact cell (phase field 1 at its four quadrature points) holding both
  pressure degrees of freedom of the instance.\<close>

definition sample_cell :: cell_pair where
  "sample_cell =
     \<lparr>is_locally_owned = True, get_function_values = (\<lambda>u. [1, 1, 1, 1]), get_dof_indices = [0, 1]\<rparr>"

text \<open>The run state after the step of \<open>sample_run_state\<close> has been cut once, the
  Newton loop having run to the cap.\<close>

definition sample_run_state_cut :: "nat run_state" where
  "sample_run_state_cut =
     \<lparr>time = 1 / 1000, time_step = 1 / 1000, old_time_step = 1 / 100, time_step_number = 1,
      pds = sample_solid\<lparr>solution := [0, 1], relevant_solution := [0, 0], residual := [0, 0],
              use_old_time_step_phi := True,
              pressure_owned_solution := [100000, 100000],
              pressure_relevant_solution := [100000, 100000]\<rparr>\<rparr>"

text \<open>The run state in which the step of \<open>sample_run_state\<close> is accepted after one cut,
  when the solve makes progress with the smaller step only.\<close>

definition sample_run_state_retried :: "nat run_state" where
  "sample_run_state_retried =
     \<lparr>time = 1 / 1000, time_step = 1 / 1000, old_time_step = 1 / 1000, time_step_number = 1,
      pds = sample_solid\<lparr>solution := [0, 0], relevant_solution := [0, 0], residual := [0, 0],
              use_old_time_step_phi := True,
              pressure_owned_solution := [100000, 100000],
              pressure_relevant_solution := [100000, 100000]\<rparr>\<rparr>"

text \<open>The run state in which the one step of the small table step is accepted.\<close>

definition sample_run_state_small :: "nat run_state" where
  "sample_run_state_small =
     \<lparr>time = 1 / 10 ^ 10, time_step = 1 / 10 ^ 10, old_time_step = 1 / 10 ^ 10,
      time_step_number = 1,
      pds = sample_solid\<lparr>solution := [0, 0], old_solution := [1, 0], old_old_solution := [0, 1],
              relevant_solution := [0, 0], residual := [0, 0],
              use_old_time_step_phi := True,
              pressure_owned_solution := [100000, 100000],
              pressure_relevant_solution := [100000, 100000]\<rparr>\<rparr>"

text \<open>The object after one refinement of \<open>sample_solid\<close>.\<close>

definition sample_solid_refined :: "nat solid" where
  "sample_solid_refined =
     \<lparr>mesh = 5,
      solution = [1, 0, 0],
      old_solution = [0, 1, 0],
      old_old_solution = [0, 0, 0],
      relevant_solution = [0, 0, 0],
      residual = [0, 0, 0],
      active_set = {},
      use_old_time_step_phi = False,
      pressure_owned_solution = [0, 0, 0],
      pressure_relevant_solution = [0, 0, 0],
      stresses = [[0, 0, 0], [0, 0, 0]]\<rparr>"

text \<open>
  Two quadrature points of a cell with two local degrees of freedom, on the sample
  shear strain. At the first the phase field went from 1 to 3/4 over the last two
  steps and extrapolates to 1/2; at the second it went from 1/2 to 1 and
  extrapolates to 3/2.
\<close>

definition sample_qpoint :: qpoint where
  "sample_qpoint =
     \<lparr>strain_tensor = eps_shear2, phi_value = 1 / 2, old_phi_value = 3 / 4,
      old_old_phi_value = 1, grad_phi_value = [2, 0], JxW = 1 / 4,
      symmetric_gradient = (\<lambda>i. if i = 0 then tidentity else eps_shear2),
      shape_value = (\<lambda>i. if i = 0 then 0 else 1),
      shape_gradient = (\<lambda>i. [1, 0])\<rparr>"

definition sample_qpoint2 :: qpoint where
  "sample_qpoint2 =
     \<lparr>strain_tensor = eps_shear2, phi_value = 1, old_phi_value = 1,
      old_old_phi_value = 1 / 2, grad_phi_value = [0, 0], JxW = 1 / 2,
      symmetric_gradient = (\<lambda>i. if i = 0 then tidentity else eps_shear2),
      shape_value = (\<lambda>i. if i = 0 then 0 else 1),
      shape_gradient = (\<lambda>i. [1, 0])\<rparr>"

subsection \<open>Facts about tensors\<close>

lemma trace_2: "trace 2 t = t 0 0 + t 1 1"
  by (simp add: trace_def numeral_2_eq_2)

lemma trace_3: "trace 3 t = t 0 0 + t 1 1 + t 2 2"
  by (simp add: trace_def eval_nat_numeral)

lemma tincr_diag_apply:
  "tincr t k k x i j = (if i = k \<and> j = k then t k k + x else t i j)"
  by (auto simp: tincr_def tset_def)

text \<open>
  Whatever \<open>gstp\<close> returns, the two parts add up to \<open>2 mu eps\<close> plus the Lame term on
  the first two diagonal entries, and to \<open>2 mu eps\<close> alone everywhere else.
\<close>

lemma stress_decomposition_sum:
  "fst (get_stress_decomposition d gstp eps) i j
     + snd (get_stress_decomposition d gstp eps) i j
   = 2 * mu * eps i j + (if i = j \<and> i < 2 then lambda * trace d eps else 0)"
proof -
  have two: "i < 2 \<longleftrightarrow> i = 0 \<or> i = 1"
    by auto
  show ?thesis
    unfolding get_stress_decomposition_def Let_def fst_conv snd_conv tincr_diag_apply two
    by (auto simp: tscale_def tsub_def algebra_simps)
qed

lemma stress_decomposition_partition_2d:
  "i < 2 \<Longrightarrow> j < 2 \<Longrightarrow>
   fst (get_stress_decomposition 2 gstp eps) i j
     + snd (get_stress_decomposition 2 gstp eps) i j
   = 2 * mu * eps i j + lambda * trace 2 eps * tidentity i j"
  by (simp add: stress_decomposition_sum tidentity_def)

text \<open>
  Claim C4. For every symmetric strain tensor, \<open>stress_plus + stress_minus\<close> is the
  isotropic linear-elastic stress \<open>2 mu eps + lambda tr(eps) I\<close>, for \<open>2\<times>2\<close> and for
  \<open>3\<times>3\<close> tensors. The \<open>2\<times>2\<close> case is \<open>stress_decomposition_partition_2d\<close>. For
  \<open>dim = 3\<close> the routine adds the Lame term to \<open>[0][0]\<close> and \<open>[1][1]\<close> only: at the unit
  stretch along the third axis the \<open>[2][2]\<close> entry of the sum is \<open>2 mu\<close>, where linear
  elasticity gives \<open>2 mu + lambda\<close>, whatever \<open>get_strain_tensor_plus\<close> returns.
\<close>

theorem stress_decomposition_3d_drops_lame_term:
  "fst (get_stress_decomposition 3 gstp eps_zz) 2 2
     + snd (get_stress_decomposition 3 gstp eps_zz) 2 2 = 2 * mu
   \<and> 2 * mu * eps_zz 2 2 + lambda * trace 3 eps_zz * tidentity 2 2 = 2 * mu + lambda
   \<and> 2 * mu \<noteq> 2 * mu + lambda"
  by (simp add: stress_decomposition_sum trace_3 eps_zz_def tidentity_def lambda_def)

subsection \<open>Entries of the two stress parts\<close>

lemma stress_minus_entry:
  "snd (get_stress_decomposition d gstp eps) i j
   = 2 * mu * (eps i j - gstp eps i j)
     + (if i = j \<and> i < 2 then lambda * (trace d eps - max (trace d eps) 0) else 0)"
proof -
  have two: "i < 2 \<longleftrightarrow> i = 0 \<or> i = 1"
    by auto
  show ?thesis
    unfolding get_stress_decomposition_def Let_def snd_conv tincr_diag_apply two
    by (auto simp: tscale_def tsub_def algebra_simps)
qed

lemma stress_plus_entry:
  "fst (get_stress_decomposition d gstp eps) i j
   = 2 * mu * gstp eps i j
     + (if i = j \<and> i < 2 then lambda * max (trace d eps) 0 else 0)"
proof -
  have two: "i < 2 \<longleftrightarrow> i = 0 \<or> i = 1"
    by auto
  show ?thesis
    unfolding get_stress_decomposition_def Let_def fst_conv tincr_diag_apply two
    by (auto simp: tscale_def algebra_simps)
qed

text \<open>In any dimension: where the positive part of the strain is the strain itself and
  the trace is not negative, the compression part vanishes.\<close>

lemma stress_minus_zero_of_plus_eq:
  "gstp eps i j = eps i j \<Longrightarrow> 0 \<le> trace d eps \<Longrightarrow>
   snd (get_stress_decomposition d gstp eps) i j = 0"
  by (simp add: stress_minus_entry max_def)

subsection \<open>The spectral model of \<^verbatim>\<open>get_strain_tensor_plus\<close>\<close>

lemma all_less_2: "(\<forall>k<2. P k) \<longleftrightarrow> P (0::nat) \<and> P 1"
  by (auto simp: less_2_cases_iff)

lemma all_less_3: "(\<forall>k<3. P k) \<longleftrightarrow> P (0::nat) \<and> P 1 \<and> P 2"
proof -
  have "k < 3 \<longleftrightarrow> k = 0 \<or> k = 1 \<or> k = 2" for k :: nat
    by auto
  then show ?thesis
    by auto
qed

lemma sum_less_2: "(\<Sum>k<2. f k) = f 0 + f (1::nat)"
  by (simp add: numeral_2_eq_2)

lemma sum_less_3: "(\<Sum>k<3. f k) = f 0 + f 1 + f (2::nat)"
  by (simp add: eval_nat_numeral)

text \<open>The values of a spectral decomposition are the eigenvalues: each is the
  quadratic form of the tensor at its own eigenvector.\<close>

lemma eigenvalue_rayleigh:
  assumes dec: "is_eigen_decomposition d es t" and l: "l < d"
  shows "(\<Sum>i<d. \<Sum>j<d. snd es l i * t i j * snd es l j) = fst es l"
proof -
  let ?ev = "fst es" and ?n = "snd es"
  have ortho: "(\<Sum>i<d. ?n k i * ?n l i) = (if k = l then 1 else 0)" if "k < d" for k
    using dec that l by (simp add: is_eigen_decomposition_def)
  have rec: "t i j = (\<Sum>k<d. ?ev k * ?n k i * ?n k j)" if "i < d" "j < d" for i j
    using dec that by (simp add: is_eigen_decomposition_def)
  have "(\<Sum>i<d. \<Sum>j<d. ?n l i * t i j * ?n l j)
      = (\<Sum>i<d. \<Sum>j<d. \<Sum>k<d. ?ev k * (?n k i * ?n l i) * (?n k j * ?n l j))"
    by (intro sum.cong refl) (simp add: rec sum_distrib_left sum_distrib_right algebra_simps)
  also have "\<dots> = (\<Sum>i<d. \<Sum>k<d. \<Sum>j<d. ?ev k * (?n k i * ?n l i) * (?n k j * ?n l j))"
    by (intro sum.cong refl sum.swap)
  also have "\<dots> = (\<Sum>k<d. \<Sum>i<d. \<Sum>j<d. ?ev k * (?n k i * ?n l i) * (?n k j * ?n l j))"
    by (rule sum.swap)
  also have "\<dots> = (\<Sum>k<d. ?ev k * (\<Sum>i<d. ?n k i * ?n l i) * (\<Sum>j<d. ?n k j * ?n l j))"
    by (intro sum.cong refl) (simp add: sum_distrib_left sum_distrib_right algebra_simps)
  also have "\<dots> = (\<Sum>k<d. if k = l then ?ev k else 0)"
    by (intro sum.cong refl) (simp add: ortho)
  also have "\<dots> = ?ev l"
    using l by simp
  finally show ?thesis .
qed

text \<open>Clipping changes nothing when no eigenvalue is negative.\<close>

lemma strain_tensor_plus_of_nonneg:
  assumes dec: "is_eigen_decomposition d (eigen t) t"
    and nonneg: "\<forall>k<d. 0 \<le> fst (eigen t) k"
    and i: "i < d" and j: "j < d"
  shows "get_strain_tensor_plus d eigen t i j = t i j"
proof -
  have "get_strain_tensor_plus d eigen t i j
      = (\<Sum>k<d. fst (eigen t) k * snd (eigen t) k i * snd (eigen t) k j)"
    unfolding get_strain_tensor_plus_def
  proof (intro sum.cong refl)
    fix k assume "k \<in> {..<d}"
    then have "0 \<le> fst (eigen t) k"
      using nonneg by simp
    then show "max (fst (eigen t) k) 0 * snd (eigen t) k i * snd (eigen t) k j
        = fst (eigen t) k * snd (eigen t) k i * snd (eigen t) k j"
      by (simp add: max_def)
  qed
  also have "\<dots> = t i j"
    using dec i j by (simp add: is_eigen_decomposition_def)
  finally show ?thesis .
qed

text \<open>The trace is the sum of the eigenvalues, each weighted with the square sum of
  its eigenvector; it is not negative when no eigenvalue is.\<close>

lemma trace_nonneg_of_nonneg:
  assumes dec: "is_eigen_decomposition d es t" and nonneg: "\<forall>k<d. 0 \<le> fst es k"
  shows "0 \<le> trace d t"
proof -
  have "trace d t = (\<Sum>i<d. \<Sum>k<d. fst es k * snd es k i * snd es k i)"
    unfolding trace_def using dec
    by (intro sum.cong refl) (simp add: is_eigen_decomposition_def)
  also have "0 \<le> \<dots>"
  proof (intro sum_nonneg)
    fix i k assume "k \<in> {..<d}"
    then have "0 \<le> fst es k"
      using nonneg by simp
    moreover have "0 \<le> snd es k i * snd es k i"
      by simp
    ultimately have "0 \<le> fst es k * (snd es k i * snd es k i)"
      by (rule mult_nonneg_nonneg)
    then show "0 \<le> fst es k * snd es k i * snd es k i"
      by (simp add: mult.assoc)
  qed
  finally show ?thesis .
qed

text \<open>The zero tensor has no eigenvalue but zero.\<close>

lemma eigenvalues_of_zero:
  assumes "is_eigen_decomposition d es tzero" and "l < d"
  shows "fst es l = 0"
  using eigenvalue_rayleigh [OF assms] by (simp add: tzero_def)

text \<open>The two sample eigen-systems are spectral decompositions of their strains.\<close>

lemma eigen_rot3_decomposition: "is_eigen_decomposition 3 (eigen_rot3 eps_rot3) eps_rot3"
  unfolding is_eigen_decomposition_def all_less_3 sum_less_3
  by (simp add: eigen_rot3_def eps_rot3_def)

lemma eigen_shear2_decomposition: "is_eigen_decomposition 2 (eigen_shear2 eps_shear2) eps_shear2"
  unfolding is_eigen_decomposition_def all_less_2 sum_less_2
  by (simp add: eigen_shear2_def eps_shear2_def)

lemma eigen_axes_decomposition: "is_eigen_decomposition 3 (eigen_axes tzero) tzero"
  unfolding is_eigen_decomposition_def all_less_3 sum_less_3
  by (simp add: eigen_axes_def tzero_def)

text \<open>Where an eigenvalue is negative the clipping is felt: the compression part of
  the sample shear is not zero.\<close>

lemma stress_minus_of_shear:
  "snd (get_stress_decomposition 2 (get_strain_tensor_plus 2 eigen_shear2) eps_shear2) 0 0 = - 1280"
  by (simp add: stress_minus_entry trace_2 get_strain_tensor_plus_def sum_less_2
      eigen_shear2_def eps_shear2_def mu_def)

text \<open>
  Claim C9. For every strain tensor whose eigenvalues are all non-negative the
  compression part of the stress decomposition is the zero tensor, in every dimension
  \<open>d\<close> (so for \<open>2\<times>2\<close> and for \<open>3\<times>3\<close> tensors); the decomposition of the zero strain is a
  pair of zero tensors. The eigenvalues are those of the spectral decomposition the
  eigen-solver of \<open>get_strain_tensor_plus\<close> delivers.
\<close>

theorem stress_minus_zero_of_nonneg_eigenvalues:
  "(is_eigen_decomposition d (eigen eps) eps \<and> (\<forall>k<d. 0 \<le> fst (eigen eps) k) \<longrightarrow>
      (\<forall>i<d. \<forall>j<d.
         snd (get_stress_decomposition d (get_strain_tensor_plus d eigen) eps) i j = 0))
   \<and> (is_eigen_decomposition d (eigen tzero) tzero \<longrightarrow>
      (\<forall>i<d. \<forall>j<d.
         fst (get_stress_decomposition d (get_strain_tensor_plus d eigen) tzero) i j = 0
         \<and> snd (get_stress_decomposition d (get_strain_tensor_plus d eigen) tzero) i j = 0))"
proof -
  have nonneg_case: "is_eigen_decomposition d (eigen eps) eps
      \<and> (\<forall>k<d. 0 \<le> fst (eigen eps) k) \<longrightarrow>
      (\<forall>i<d. \<forall>j<d.
         snd (get_stress_decomposition d (get_strain_tensor_plus d eigen) eps) i j = 0)"
  proof (intro impI allI)
    fix i j :: nat
    assume h: "is_eigen_decomposition d (eigen eps) eps \<and> (\<forall>k<d. 0 \<le> fst (eigen eps) k)"
      and i: "i < d" and j: "j < d"
    have plus: "get_strain_tensor_plus d eigen eps i j = eps i j"
      using h i j by (simp add: strain_tensor_plus_of_nonneg)
    have "0 \<le> trace d eps"
      using h trace_nonneg_of_nonneg [of d "eigen eps" eps] by blast
    with plus show "snd (get_stress_decomposition d (get_strain_tensor_plus d eigen) eps) i j = 0"
      by (rule stress_minus_zero_of_plus_eq)
  qed
  have zero_case: "is_eigen_decomposition d (eigen tzero) tzero \<longrightarrow>
      (\<forall>i<d. \<forall>j<d.
         fst (get_stress_decomposition d (get_strain_tensor_plus d eigen) tzero) i j = 0
         \<and> snd (get_stress_decomposition d (get_strain_tensor_plus d eigen) tzero) i j = 0)"
  proof (intro impI allI)
    fix i j :: nat
    assume dec: "is_eigen_decomposition d (eigen tzero) tzero" and i: "i < d" and j: "j < d"
    have zero: "\<forall>k<d. fst (eigen tzero) k = 0"
      using eigenvalues_of_zero [OF dec] by simp
    then have nonneg: "\<forall>k<d. 0 \<le> fst (eigen tzero) k"
      by simp
    have plus: "get_strain_tensor_plus d eigen tzero i j = tzero i j"
      using dec nonneg i j by (rule strain_tensor_plus_of_nonneg)
    have t0: "trace d tzero = 0"
      by (simp add: trace_def tzero_def)
    have "fst (get_stress_decomposition d (get_strain_tensor_plus d eigen) tzero) i j = 0"
      by (simp add: stress_plus_entry plus t0) (simp add: tzero_def)
    moreover have "snd (get_stress_decomposition d (get_strain_tensor_plus d eigen) tzero) i j = 0"
      using plus by (rule stress_minus_zero_of_plus_eq) (simp add: t0)
    ultimately show
      "fst (get_stress_decomposition d (get_strain_tensor_plus d eigen) tzero) i j = 0
       \<and> snd (get_stress_decomposition d (get_strain_tensor_plus d eigen) tzero) i j = 0"
      by simp
  qed
  from nonneg_case zero_case show ?thesis
    by (rule conjI)
qed

theorem stress_minus_zero_of_nonneg_eigenvalues_witness:
  "is_eigen_decomposition 3 (eigen_rot3 eps_rot3) eps_rot3
   \<and> 0 \<le> fst (eigen_rot3 eps_rot3) 0 \<and> 0 \<le> fst (eigen_rot3 eps_rot3) 1
   \<and> 0 \<le> fst (eigen_rot3 eps_rot3) 2
   \<and> eps_rot3 0 1 = 12 / 25 \<and> eps_rot3 2 2 = 1 / 5
   \<and> snd (get_stress_decomposition 3 (get_strain_tensor_plus 3 eigen_rot3) eps_rot3) 0 1 = 0
   \<and> snd (get_stress_decomposition 3 (get_strain_tensor_plus 3 eigen_rot3) eps_rot3) 1 1 = 0
   \<and> snd (get_stress_decomposition 3 (get_strain_tensor_plus 3 eigen_rot3) eps_rot3) 2 2 = 0
   \<and> is_eigen_decomposition 3 (eigen_axes tzero) tzero
   \<and> fst (get_stress_decomposition 3 (get_strain_tensor_plus 3 eigen_axes) tzero) 1 1 = 0
   \<and> snd (get_stress_decomposition 3 (get_strain_tensor_plus 3 eigen_axes) tzero) 2 2 = 0"
proof -
  have nonneg: "\<forall>k<3. 0 \<le> fst (eigen_rot3 eps_rot3) k"
    by (simp add: eigen_rot3_def)
  have v: "eps_rot3 0 1 = 12 / 25 \<and> eps_rot3 2 2 = 1 / 5"
    by (simp add: eps_rot3_def)
  from stress_minus_zero_of_nonneg_eigenvalues [of 3 eigen_rot3 eps_rot3]
    eigen_rot3_decomposition nonneg
  have minus: "\<forall>i<3. \<forall>j<3.
      snd (get_stress_decomposition 3 (get_strain_tensor_plus 3 eigen_rot3) eps_rot3) i j = 0"
    by blast
  from stress_minus_zero_of_nonneg_eigenvalues [of 3 eigen_axes eps_rot3]
    eigen_axes_decomposition
  have zero: "\<forall>i<3. \<forall>j<3.
      fst (get_stress_decomposition 3 (get_strain_tensor_plus 3 eigen_axes) tzero) i j = 0
      \<and> snd (get_stress_decomposition 3 (get_strain_tensor_plus 3 eigen_axes) tzero) i j = 0"
    by blast
  have "0 \<le> fst (eigen_rot3 eps_rot3) 0 \<and> 0 \<le> fst (eigen_rot3 eps_rot3) 1
      \<and> 0 \<le> fst (eigen_rot3 eps_rot3) 2"
    using nonneg by simp
  with minus zero show ?thesis
    using eigen_rot3_decomposition eigen_axes_decomposition v by simp
qed

subsection \<open>The command line\<close>

lemma drain_args_later: "arg_number \<noteq> 1 \<Longrightarrow> 1 \<le> arg_number \<Longrightarrow>
    drain_args args arg_number filename = filename"
  by (induction args arbitrary: arg_number) auto

lemma drain_args_first: "drain_args (a # args) 1 filename = a"
  by (simp add: drain_args_later)

lemma drain_args_of_argv:
  "2 \<le> length argv \<Longrightarrow>
   drain_args (map (\<lambda>i. argv ! i) [Suc 0..<length argv]) 1 filename = argv ! Suc 0"
  by (simp add: upt_conv_Cons drain_args_later)

text \<open>
  Claim C10. \<^verbatim>\<open>parse_command_line\<close> returns \<^verbatim>\<open>argv[1]\<close> as the input file name, whatever
  arguments follow it; with \<open>argc < 2\<close> it prints a message and leaves the process
  with status 1, before \<^verbatim>\<open>main\<close> constructs the problem object.
\<close>

theorem parse_command_line_first_argument:
  "(2 \<le> length argv \<longrightarrow>
      parse_command_line (int (length argv)) argv = ([], Return (argv ! 1)))
   \<and> (length argv < 2 \<longrightarrow>
      parse_command_line (int (length argv)) argv = ([''specify the file name''], Exit 1)
      \<and> main run_throws (int (length argv)) argv
          = ([MpiInitFinalize, Cout ''specify the file name''], 1))"
  by (simp add: parse_command_line_def main_def drain_args_of_argv)

theorem parse_command_line_first_argument_witness:
  "parse_command_line 3 [''eaglefrac'', ''input/case.prm'', ''extra''] = ([], Return ''input/case.prm'')
   \<and> parse_command_line 1 [''eaglefrac''] = ([''specify the file name''], Exit 1)
   \<and> main (\<lambda>f. False) 1 [''eaglefrac''] = ([MpiInitFinalize, Cout ''specify the file name''], 1)"
  using parse_command_line_first_argument [of "[''eaglefrac'', ''input/case.prm'', ''extra'']"]
    parse_command_line_first_argument [of "[''eaglefrac'']" "\<lambda>f. False"]
  by simp

subsection \<open>The Newton loop\<close>

text \<open>What the break condition of the source tests.\<close>

lemma break_condition_iff:
  "break_condition env data old_active_set s \<longleftrightarrow>
     active_set s = old_active_set \<and> residual_norm env s < newton_tolerance data"
  by (simp add: break_condition_def active_set_changed_def)

text \<open>The loop never leaves with a counter beyond the cap.\<close>

lemma newton_loop_le_cap:
  "newton_step \<le> max_newton_iter data \<Longrightarrow>
   fst (newton_loop env data time_steps newton_step old_active_set s) \<le> max_newton_iter data"
proof (induction env data time_steps newton_step old_active_set s rule: newton_loop.induct)
  case (1 env data time_steps newton_step old_active_set s)
  show ?case
  proof (cases "newton_step < max_newton_iter data")
    case True
    then have "newton_step + 1 \<le> max_newton_iter data"
      by simp
    with True "1.IH" show ?thesis
      by (subst newton_loop.simps) auto
  next
    case False
    with "1.prems" show ?thesis
      by (subst newton_loop.simps) simp
  qed
qed


text \<open>
  While the active set differs after every evaluation, the break condition is false
  whatever the residual: the loop runs to the cap.
\<close>

lemma newton_loop_moving_set:
  "(\<And>ts s. active_set (newton_evaluate env ts s) \<noteq> active_set s) \<Longrightarrow>
   (\<And>ts s. active_set (newton_update env ts s) = active_set s) \<Longrightarrow>
   old_active_set = active_set s \<Longrightarrow>
   fst (newton_loop env data time_steps newton_step old_active_set s)
     = max newton_step (max_newton_iter data)"
proof (induction env data time_steps newton_step old_active_set s rule: newton_loop.induct)
  case (1 env data time_steps newton_step old_active_set s)
  note ev = "1.prems"(1) and up = "1.prems"(2) and old = "1.prems"(3)
  show ?case
  proof (cases "newton_step < max_newton_iter data")
    case False
    then show ?thesis
      by (subst newton_loop.simps) simp
  next
    case True
    show ?thesis
    proof (cases "newton_step > 0")
      case pos: True
      have nb: "\<not> break_condition env data old_active_set (newton_evaluate env time_steps s)"
        using ev [of time_steps s] by (simp add: break_condition_def active_set_changed_def old)
      have "fst (newton_loop env data time_steps (newton_step + 1)
                   (active_set (newton_evaluate env time_steps s))
                   (newton_update env time_steps (newton_evaluate env time_steps s)))
            = max (newton_step + 1) (max_newton_iter data)"
        using True pos nb ev up by (intro "1.IH"(1)) simp_all
      with True pos nb show ?thesis
        by (subst newton_loop.simps) simp
    next
      case zero: False
      have "fst (newton_loop env data time_steps (newton_step + 1) old_active_set
                   (newton_update env time_steps s))
            = max (newton_step + 1) (max_newton_iter data)"
        using True zero ev up old by (intro "1.IH"(2)) simp_all
      with True zero show ?thesis
        by (subst newton_loop.simps) simp
    qed
  qed
qed

text \<open>The small instance, evaluated.\<close>

lemmas newton_loop_unfold =
  newton_loop.simps [of _ _ _ 0] newton_loop.simps [of _ _ _ 1]
  newton_loop.simps [of _ _ _ 2] newton_loop.simps [of _ _ _ 3]

lemmas pass_defs =
  newton_result_def newton_start_def impose_displacement_on_solution_def
  update_pressure_def newton_evaluate_def newton_update_def break_condition_def
  active_set_changed_def Let_def

lemma sample_newton_start:
  "newton_start (sample_env settles) sample_data sample_run_state
   = sample_solid\<lparr>pressure_owned_solution := [100000, 100000],
                  pressure_relevant_solution := [100000, 100000]\<rparr>"
  by (simp add: newton_start_def impose_displacement_on_solution_def update_pressure_def
      sample_env_def sample_data_def sample_run_state_def sample_solid_def Let_def)

lemma sample_newton_result_moving:
  "newton_result (sample_env False) sample_data sample_run_state
   = (3, sample_solid\<lparr>solution := [0, 0], relevant_solution := [0, 0], residual := [0, 0],
        pressure_owned_solution := [100000, 100000],
        pressure_relevant_solution := [100000, 100000]\<rparr>)"
  by (simp add: pass_defs newton_loop_unfold sample_env_def sample_data_def
      sample_run_state_def sample_solid_def)

lemma sample_newton_result_moving_min:
  "fst (newton_result (sample_env False) sample_data sample_run_state_min) = 3"
  by (simp add: pass_defs newton_loop_unfold sample_env_def sample_data_def
      sample_run_state_min_def sample_solid_def)

lemma sample_newton_result_settled:
  "newton_result (sample_env True) sample_data sample_run_state
   = (1, sample_solid\<lparr>solution := [0, 0], relevant_solution := [0, 0], residual := [0, 0],
        pressure_owned_solution := [100000, 100000],
        pressure_relevant_solution := [100000, 100000]\<rparr>)"
  by (simp add: pass_defs newton_loop_unfold sample_env_def sample_data_def
      sample_run_state_def sample_solid_def)

lemma sample_newton_result_dt:
  "newton_result sample_env_dt sample_data_one_step sample_run_state
   = (3, sample_solid\<lparr>residual := [1, 0],
        pressure_owned_solution := [100000, 100000],
        pressure_relevant_solution := [100000, 100000]\<rparr>)"
  by (simp add: pass_defs newton_loop_unfold sample_env_dt_def sample_env_def
      sample_data_one_step_def sample_data_def sample_run_state_def sample_solid_def)



subsection \<open>Cutting the time step\<close>

lemma redo_time_step_at_cap:
  "fst (newton_result env data r) = max_newton_iter data \<Longrightarrow>
   redo_time_step env data mrl r
   = (case cut_time_step data r (snd (newton_result env data r)) of
        Inl err \<Rightarrow> Inl err | Inr r' \<Rightarrow> Inr (RetrySmallerStep, r'))"
  by (cases "newton_result env data r") (simp add: redo_time_step_def)

text \<open>
  Claim C2, as stated: the controller never uses a step size below the minimum time
  step. With a time-stepping table whose step is \<open>1/10\<^sup>1\<^sup>0\<close> and a minimum time step
  of \<open>1/10\<^sup>9\<close>, on the instance that converges, \<^verbatim>\<open>run\<close> takes the step from the table at
  the head of the loop, solves with it and accepts it.
\<close>

theorem table_step_below_minimum_is_used:
  "run 1 (sample_env True) sample_data_small_step sample_solid
     = Some (Inr sample_run_state_small)
   \<and> time_step sample_run_state_small = 1 / 10 ^ 10
   \<and> minimum_time_step sample_data_small_step = 1 / 10 ^ 9
   \<and> time_step sample_run_state_small < minimum_time_step sample_data_small_step"
  by (simp add: run_def begin_time_step_def redo_time_step_def cut_time_step_def
      accept_time_step_def pass_defs newton_loop_unfold sample_env_def
      sample_data_small_step_def sample_data_def sample_run_state_small_def sample_solid_def)

text \<open>
  Claim C2, amended. Whenever the Newton loop leaves with \<open>newton_step\<close> at the cap,
  at step size \<open>dt\<close>, the pass throws \<^verbatim>\<open>NoConvergence\<close>, which ends the run, exactly when
  \<open>dt/10\<close> is below the minimum time step; otherwise the solution is reset to the old
  solution and the same step (same step number) is run again from the label with
  the step \<open>dt/10\<close>: its Newton loop is entered with the step pair \<open>(dt/10, old step)\<close>,
  and the run goes on with what that pass returns. So a step size produced by a cut
  is never below the minimum; the step taken from the time-stepping table is not
  compared with it.
\<close>

theorem step_cut_on_newton_exhaustion:
  assumes "fst (newton_result env data r) = max_newton_iter data"
    and "s = snd (newton_result env data r)"
    and "r' = r\<lparr>time := time r - time_step r + time_step r / 10,
                 time_step := time_step r / 10,
                 pds := s\<lparr>solution := old_solution s, use_old_time_step_phi := True\<rparr>\<rparr>"
  shows "(time_step r / 10 < minimum_time_step data \<longrightarrow>
            redo_time_step env data mrl r = Inl NoConvergence
            \<and> run_passes (Suc fuel) env data mrl r = Some (Inl NoConvergence))
         \<and> (\<not> time_step r / 10 < minimum_time_step data \<longrightarrow>
            redo_time_step env data mrl r = Inr (RetrySmallerStep, r')
            \<and> time_step r' = time_step r / 10
            \<and> minimum_time_step data \<le> time_step r'
            \<and> time_step_number r' = time_step_number r
            \<and> solution (pds r') = old_solution s
            \<and> newton_result env data r'
                = newton_loop env data (time_step r / 10, old_time_step r) 0
                    (active_set (newton_start env data r')) (newton_start env data r')
            \<and> run_passes (Suc (Suc fuel)) env data mrl r
                = (case redo_time_step env data mrl r' of
                     Inl err \<Rightarrow> Some (Inl err)
                   | Inr (Accepted, r'') \<Rightarrow>
                       (if time r'' \<ge> t_max data then Some (Inr r'')
                        else if time r'' < t_max data
                          then run_passes fuel env data mrl (begin_time_step env data r'')
                          else Some (Inr r''))
                   | Inr (RetrySmallerStep, r'') \<Rightarrow> run_passes fuel env data mrl r''
                   | Inr (RetryRefined, r'') \<Rightarrow> run_passes fuel env data mrl r''))"
proof (intro conjI impI)
  assume small: "time_step r / 10 < minimum_time_step data"
  then show fatal: "redo_time_step env data mrl r = Inl NoConvergence"
    using redo_time_step_at_cap [OF assms(1), of mrl] by (simp add: cut_time_step_def)
  then show "run_passes (Suc fuel) env data mrl r = Some (Inl NoConvergence)"
    by simp
next
  assume ok: "\<not> time_step r / 10 < minimum_time_step data"
  then have cut: "cut_time_step data r s = Inr r'"
    by (simp add: cut_time_step_def Let_def assms(3))
  then show redo: "redo_time_step env data mrl r = Inr (RetrySmallerStep, r')"
    using redo_time_step_at_cap [OF assms(1), of mrl] by (simp add: assms(2))
  show ts: "time_step r' = time_step r / 10"
    by (simp add: assms(3))
  show "minimum_time_step data \<le> time_step r'"
    using ok ts by simp
  show "time_step_number r' = time_step_number r"
    by (simp add: assms(3))
  show "solution (pds r') = old_solution s"
    by (simp add: assms(3))
  show "newton_result env data r'
      = newton_loop env data (time_step r / 10, old_time_step r) 0
          (active_set (newton_start env data r')) (newton_start env data r')"
    unfolding newton_result_def Let_def by (simp add: assms(3))
  show "run_passes (Suc (Suc fuel)) env data mrl r
      = (case redo_time_step env data mrl r' of
           Inl err \<Rightarrow> Some (Inl err)
         | Inr (Accepted, r'') \<Rightarrow>
             (if time r'' \<ge> t_max data then Some (Inr r'')
              else if time r'' < t_max data
                then run_passes fuel env data mrl (begin_time_step env data r'')
                else Some (Inr r''))
         | Inr (RetrySmallerStep, r'') \<Rightarrow> run_passes fuel env data mrl r''
         | Inr (RetryRefined, r'') \<Rightarrow> run_passes fuel env data mrl r'')"
    by (simp add: redo)
qed

theorem step_cut_on_newton_exhaustion_witness:
  "fst (newton_result sample_env_dt sample_data_one_step sample_run_state)
     = max_newton_iter sample_data_one_step
   \<and> \<not> time_step sample_run_state / 10 < minimum_time_step sample_data_one_step
   \<and> run_passes 2 sample_env_dt sample_data_one_step 4 sample_run_state
     = Some (Inr sample_run_state_retried)
   \<and> time_step sample_run_state_retried = 1 / 1000
   \<and> time_step_number sample_run_state_retried = time_step_number sample_run_state
   \<and> fst (newton_result (sample_env False) sample_data sample_run_state_min)
     = max_newton_iter sample_data
   \<and> time_step sample_run_state_min / 10 < minimum_time_step sample_data
   \<and> run_passes 1 (sample_env False) sample_data 7 sample_run_state_min
     = Some (Inl NoConvergence)"
proof -
  define s where "s = snd (newton_result sample_env_dt sample_data_one_step sample_run_state)"
  define r' where "r' = sample_run_state
      \<lparr>time := time sample_run_state - time_step sample_run_state
                + time_step sample_run_state / 10,
       time_step := time_step sample_run_state / 10,
       pds := s\<lparr>solution := old_solution s, use_old_time_step_phi := True\<rparr>\<rparr>"
  have h1: "fst (newton_result sample_env_dt sample_data_one_step sample_run_state)
      = max_newton_iter sample_data_one_step"
    unfolding sample_newton_result_dt by (simp add: sample_data_one_step_def sample_data_def)
  have c1: "\<not> time_step sample_run_state / 10 < minimum_time_step sample_data_one_step"
    by (simp add: sample_run_state_def sample_data_one_step_def sample_data_def)
  have r'_eq: "r' = \<lparr>time = 1 / 1000, time_step = 1 / 1000, old_time_step = 1 / 100,
      time_step_number = 1,
      pds = sample_solid\<lparr>solution := [0, 1], residual := [1, 0],
              use_old_time_step_phi := True,
              pressure_owned_solution := [100000, 100000],
              pressure_relevant_solution := [100000, 100000]\<rparr>\<rparr>"
    unfolding r'_def s_def sample_newton_result_dt
    by (simp add: sample_run_state_def sample_solid_def)
  have redo': "redo_time_step sample_env_dt sample_data_one_step 4 r'
      = Inr (Accepted, sample_run_state_retried)"
    unfolding r'_eq
    by (simp add: redo_time_step_def accept_time_step_def pass_defs newton_loop_unfold
        sample_env_dt_def sample_env_def sample_data_one_step_def sample_data_def
        sample_run_state_retried_def sample_solid_def)
  have reached: "time sample_run_state_retried \<ge> t_max sample_data_one_step"
    by (simp add: sample_run_state_retried_def sample_data_one_step_def sample_data_def)
  have two: "(2::nat) = Suc (Suc 0)" and one: "(1::nat) = Suc 0"
    by simp_all
  from step_cut_on_newton_exhaustion [OF h1 s_def r'_def, of 4 0] c1
  have "run_passes (Suc (Suc 0)) sample_env_dt sample_data_one_step 4 sample_run_state
      = (case redo_time_step sample_env_dt sample_data_one_step 4 r' of
           Inl err \<Rightarrow> Some (Inl err)
         | Inr (Accepted, r'') \<Rightarrow>
             (if time r'' \<ge> t_max sample_data_one_step then Some (Inr r'')
              else if time r'' < t_max sample_data_one_step
                then run_passes 0 sample_env_dt sample_data_one_step 4
                       (begin_time_step sample_env_dt sample_data_one_step r'')
                else Some (Inr r''))
         | Inr (RetrySmallerStep, r'') \<Rightarrow> run_passes 0 sample_env_dt sample_data_one_step 4 r''
         | Inr (RetryRefined, r'') \<Rightarrow> run_passes 0 sample_env_dt sample_data_one_step 4 r'')"
    by blast
  then have retried: "run_passes 2 sample_env_dt sample_data_one_step 4 sample_run_state
      = Some (Inr sample_run_state_retried)"
    unfolding redo' two using reached by simp
  have h2: "fst (newton_result (sample_env False) sample_data sample_run_state_min)
      = max_newton_iter sample_data"
    unfolding sample_newton_result_moving_min by (simp add: sample_data_def)
  have c2: "time_step sample_run_state_min / 10 < minimum_time_step sample_data"
    by (simp add: sample_run_state_min_def sample_data_def)
  from step_cut_on_newton_exhaustion [OF h2 refl refl, of 7 0] c2
  have fatal: "run_passes 1 (sample_env False) sample_data 7 sample_run_state_min
      = Some (Inl NoConvergence)"
    unfolding one by blast
  have v: "time_step sample_run_state_retried = 1 / 1000
      \<and> time_step_number sample_run_state_retried = time_step_number sample_run_state"
    by (simp add: sample_run_state_retried_def sample_run_state_def)
  from h1 c1 retried v h2 c2 fatal show ?thesis
    by blast
qed

text \<open>
  Claim C3, as stated: after a cut the Newton solve is run again at the time of the
  attempt that failed. On the small instance the failed attempt ran at time \<open>1/100\<close>
  with step \<open>1/100\<close>; the pass after the cut runs at time \<open>1/1000\<close>.
\<close>

theorem redo_time_differs_after_cut:
  "redo_time_step (sample_env False) sample_data 7 sample_run_state
     = Inr (RetrySmallerStep, sample_run_state_cut)
   \<and> time sample_run_state = 1 / 100
   \<and> time sample_run_state_cut = 1 / 1000
   \<and> time sample_run_state_cut \<noteq> time sample_run_state"
  unfolding redo_time_step_def sample_newton_result_moving
  by (simp add: cut_time_step_def Let_def
      sample_data_def sample_run_state_def sample_run_state_cut_def sample_solid_def)

text \<open>
  Claim C3, amended. After a non-converged attempt that is not fatal, the controller
  rolls time back by the failed step to the start of the step, applies the
  ten-times-smaller step, and runs the Newton solve again at the start of the step
  plus the smaller step; for a positive step that is earlier than the time of the
  attempt that failed.
\<close>

theorem redo_time_after_cut:
  assumes "fst (newton_result env data r) = max_newton_iter data"
    and "\<not> time_step r / 10 < minimum_time_step data"
  shows "\<exists>r'. redo_time_step env data mrl r = Inr (RetrySmallerStep, r')
            \<and> time_step r' = time_step r / 10
            \<and> time r' = (time r - time_step r) + time_step r'
            \<and> (0 < time_step r \<longrightarrow> time r' < time r)"
  using assms
  by (cases "newton_result env data r")
     (simp add: redo_time_step_def cut_time_step_def Let_def)

theorem redo_time_after_cut_witness:
  "fst (newton_result (sample_env False) sample_data sample_run_state)
     = max_newton_iter sample_data
   \<and> \<not> time_step sample_run_state / 10 < minimum_time_step sample_data
   \<and> (\<exists>r'. redo_time_step (sample_env False) sample_data 7 sample_run_state
              = Inr (RetrySmallerStep, r')
          \<and> time_step r' = 1 / 1000 \<and> time r' = 1 / 1000 \<and> time r' < 1 / 100)"
proof -
  have h: "fst (newton_result (sample_env False) sample_data sample_run_state)
      = max_newton_iter sample_data"
    unfolding sample_newton_result_moving by (simp add: sample_data_def)
  have c: "\<not> time_step sample_run_state / 10 < minimum_time_step sample_data"
    by (simp add: sample_run_state_def sample_data_def)
  have v: "time_step sample_run_state = 1 / 100" "time sample_run_state = 1 / 100"
    by (simp_all add: sample_run_state_def)
  from redo_time_after_cut [OF h c, of 7]
  obtain r' where r': "redo_time_step (sample_env False) sample_data 7 sample_run_state
              = Inr (RetrySmallerStep, r')"
      "time_step r' = time_step sample_run_state / 10"
      "time r' = (time sample_run_state - time_step sample_run_state) + time_step r'"
    by blast
  have "time_step r' = 1 / 1000 \<and> time r' = 1 / 1000 \<and> time r' < 1 / 100"
    using r'(2,3) by (simp add: v)
  with r'(1) h c show ?thesis
    by blast
qed

subsection \<open>A run that is cut down to the minimum step\<close>

text \<open>
  On the instance whose active set differs after every evaluation every pass ends at
  the cap, although the residual is zero after the first solve. The step \<open>1/100\<close> is
  cut seven times, to \<open>1/1000000000\<close>, and the eighth pass throws: eight units of fuel
  are enough for \<^verbatim>\<open>run\<close> to end, with \<^verbatim>\<open>NoConvergence\<close>.
\<close>

lemma sample_moving: "active_set (newton_evaluate (sample_env False) ts s) \<noteq> active_set s"
    "active_set (newton_update (sample_env False) ts s) = active_set s"
  by (simp_all add: newton_evaluate_def newton_update_def sample_env_def Let_def)

lemma sample_cap:
  "fst (newton_result (sample_env False) sample_data r) = max_newton_iter sample_data"
proof -
  have "fst (newton_result (sample_env False) sample_data r) = max 0 (max_newton_iter sample_data)"
    unfolding newton_result_def Let_def
    by (rule newton_loop_moving_set) (simp_all add: sample_moving)
  then show ?thesis
    by (simp add: sample_data_def)
qed

lemma sample_pass_fatal:
  assumes "time_step r / 10 < minimum_time_step sample_data"
  shows "run_passes (Suc fuel) (sample_env False) sample_data mrl r = Some (Inl NoConvergence)"
proof -
  have "redo_time_step (sample_env False) sample_data mrl r = Inl NoConvergence"
    using redo_time_step_at_cap [OF sample_cap, of mrl r] assms
    by (simp add: cut_time_step_def)
  then show ?thesis
    by simp
qed

lemma sample_pass_cut:
  assumes "\<not> time_step r / 10 < minimum_time_step sample_data"
  shows "\<exists>r'. time_step r' = time_step r / 10 \<and>
     run_passes (Suc fuel) (sample_env False) sample_data mrl r
       = run_passes fuel (sample_env False) sample_data mrl r'"
proof -
  obtain r' where c: "cut_time_step sample_data r
        (snd (newton_result (sample_env False) sample_data r)) = Inr r'"
    and ts: "time_step r' = time_step r / 10"
    using assms by (simp add: cut_time_step_def Let_def)
  have "redo_time_step (sample_env False) sample_data mrl r = Inr (RetrySmallerStep, r')"
    using redo_time_step_at_cap [OF sample_cap, of mrl r] c by simp
  then have "run_passes (Suc fuel) (sample_env False) sample_data mrl r
       = run_passes fuel (sample_env False) sample_data mrl r'"
    by simp
  with ts show ?thesis
    by blast
qed

lemma sample_passes_abort:
  "time_step r = 10 ^ n / 10 ^ 9 \<Longrightarrow>
   run_passes (Suc n) (sample_env False) sample_data mrl r = Some (Inl NoConvergence)"
proof (induction n arbitrary: r)
  case 0
  then have "time_step r / 10 < minimum_time_step sample_data"
    by (simp add: sample_data_def)
  then show ?case
    by (rule sample_pass_fatal)
next
  case (Suc n)
  have pos: "(1::real) \<le> 10 ^ n"
    by (rule one_le_power) simp
  from Suc.prems have "time_step r / 10 = 10 ^ n / 10 ^ 9"
    by simp
  moreover have "minimum_time_step sample_data = 1 / 10 ^ 9"
    by (simp add: sample_data_def)
  moreover have "(1::real) / 10 ^ 9 \<le> 10 ^ n / 10 ^ 9"
    using pos by (intro divide_right_mono) simp_all
  ultimately have "\<not> time_step r / 10 < minimum_time_step sample_data"
    by linarith
  from sample_pass_cut [OF this, of "Suc n" mrl]
  obtain r' where r': "time_step r' = time_step r / 10"
    "run_passes (Suc (Suc n)) (sample_env False) sample_data mrl r
       = run_passes (Suc n) (sample_env False) sample_data mrl r'"
    by blast
  have "time_step r' = 10 ^ n / 10 ^ 9"
    using r'(1) Suc.prems by simp
  from Suc.IH [OF this] r'(2) show ?case
    by (simp only:)
qed

lemma sample_run_aborts:
  "run 8 (sample_env False) sample_data s0 = Some (Inl NoConvergence)"
proof -
  define r0 :: "nat run_state" where
    "r0 = \<lparr>time = 0, time_step = get_time_step sample_data 0,
            old_time_step = get_time_step sample_data 0, time_step_number = 0, pds = s0\<rparr>"
  define mrl where "mrl = initial_refinement_level sample_data + n_adaptive_steps sample_data"
  have ts: "time_step (begin_time_step (sample_env False) sample_data r0) = 10 ^ 7 / 10 ^ 9"
    by (simp add: begin_time_step_def Let_def r0_def sample_data_def)
  have lt: "time r0 < t_max sample_data"
    by (simp add: r0_def sample_data_def)
  have "run 8 (sample_env False) sample_data s0
      = run_passes (Suc 7) (sample_env False) sample_data mrl
          (begin_time_step (sample_env False) sample_data r0)"
    using lt unfolding run_def Let_def r0_def mrl_def by simp
  also have "\<dots> = Some (Inl NoConvergence)"
    using ts by (rule sample_passes_abort)
  finally show ?thesis .
qed

subsection \<open>Redoing a step after refinement\<close>

text \<open>
  Claim C6. When, after a Newton loop that left before the cap, the refiner reports
  that refinement is needed, the same time step is run again from the label on the
  refined mesh: the time, the step size, the previous step size and the step counter
  are as they were.
\<close>

theorem refinement_redo_keeps_time:
  assumes "fst (newton_result env data r) \<noteq> max_newton_iter data"
    and "n_adaptive_steps data > 0"
    and "fst (prepare_phase_field_refinement env (phi_refinement_value data) mrl
                (snd (newton_result env data r)))"
  shows "\<exists>r'. redo_time_step env data mrl r = Inr (RetryRefined, r')
            \<and> time r' = time r \<and> time_step r' = time_step r
            \<and> time_step_number r' = time_step_number r
            \<and> old_time_step r' = old_time_step r
            \<and> pds r' = snd (exectute_adaptive_refinement env
                 (snd (prepare_phase_field_refinement env (phi_refinement_value data) mrl
                    (snd (newton_result env data r)))))
            \<and> run_passes (Suc fuel) env data mrl r = run_passes fuel env data mrl r'"
  using assms
  by (cases "newton_result env data r";
      cases "prepare_phase_field_refinement env (phi_refinement_value data) mrl
                (snd (newton_result env data r))")
     (simp add: redo_time_step_def Let_def)

theorem refinement_redo_keeps_time_witness:
  "fst (newton_result (sample_env True) sample_data sample_run_state)
     \<noteq> max_newton_iter sample_data
   \<and> n_adaptive_steps sample_data > 0
   \<and> fst (prepare_phase_field_refinement (sample_env True) (phi_refinement_value sample_data) 7
           (snd (newton_result (sample_env True) sample_data sample_run_state)))
   \<and> (\<exists>r'. redo_time_step (sample_env True) sample_data 7 sample_run_state
              = Inr (RetryRefined, r')
          \<and> time r' = 1 / 100 \<and> time_step r' = 1 / 100 \<and> time_step_number r' = 1)"
proof -
  have h1: "fst (newton_result (sample_env True) sample_data sample_run_state)
      \<noteq> max_newton_iter sample_data"
    unfolding sample_newton_result_settled by (simp add: sample_data_def)
  have h2: "n_adaptive_steps sample_data > 0"
    by (simp add: sample_data_def)
  have h3: "fst (prepare_phase_field_refinement (sample_env True)
      (phi_refinement_value sample_data) 7
      (snd (newton_result (sample_env True) sample_data sample_run_state)))"
    unfolding sample_newton_result_settled by (simp add: sample_env_def sample_solid_def)
  have v: "time sample_run_state = 1 / 100" "time_step sample_run_state = 1 / 100"
      "time_step_number sample_run_state = 1"
    by (simp_all add: sample_run_state_def)
  from refinement_redo_keeps_time [OF h1 h2 h3, of 0]
  have "\<exists>r'. redo_time_step (sample_env True) sample_data 7 sample_run_state
              = Inr (RetryRefined, r')
          \<and> time r' = 1 / 100 \<and> time_step r' = 1 / 100 \<and> time_step_number r' = 1"
    unfolding v by blast
  with h1 h2 h3 show ?thesis
    by blast
qed

subsection \<open>Refinement and transfer\<close>

text \<open>
  Claim C7. The refinement-and-transfer sequence is, in this order: the three
  solution vectors (current, old, old-old) are handed to the transfer object as they
  are before the mesh changes; the mesh is coarsened and refined; on the new mesh
  all degrees of freedom are set up again (the phase-field solver's, the width
  solver's, the pressure handler's, with the pressure vectors and the stress vectors
  reinitialised to the new sizes); and the three stored vectors are interpolated from
  the old mesh to the new degrees of freedom, the current one into the solution, the
  others into the old and the old-old solution.
\<close>

theorem exectute_adaptive_refinement_sequence:
  "exectute_adaptive_refinement env s =
     (let snapshot = [solution s, old_solution s, old_old_solution s];
          refined = s\<lparr>relevant_solution := solution s,
                      mesh := execute_coarsening_and_refinement env (mesh s)\<rparr>;
          s2 = width_setup_dofs env (phase_field_setup_dofs env refined);
          new_mesh = distribute_pressure_dofs env (mesh s2)
      in ([PrepareForCoarseningAndRefinement snapshot, ExecuteCoarseningAndRefinement,
           SetupDofs, Interpolate],
          s2\<lparr>mesh := new_mesh,
             pressure_relevant_solution := replicate (n_pressure_dofs env new_mesh) 0,
             pressure_owned_solution := replicate (n_pressure_dofs env new_mesh) 0,
             stresses := replicate 2 (replicate (n_active_cells env new_mesh) 0),
             solution := interpolate env (mesh s) new_mesh (solution s),
             old_solution := interpolate env (mesh s) new_mesh (old_solution s),
             old_old_solution := interpolate env (mesh s) new_mesh (old_old_solution s)\<rparr>))"
  by (simp add: exectute_adaptive_refinement_def setup_dofs_def Let_def)

theorem exectute_adaptive_refinement_sequence_witness:
  "exectute_adaptive_refinement (sample_env True) sample_solid
     = ([PrepareForCoarseningAndRefinement [[1, 0], [0, 1], [0, 0]],
         ExecuteCoarseningAndRefinement, SetupDofs, Interpolate],
        sample_solid_refined)"
  using exectute_adaptive_refinement_sequence [of "sample_env True" sample_solid]
  by (simp add: Let_def sample_env_def sample_solid_def sample_solid_refined_def eval_nat_numeral)

subsection \<open>The pressure field\<close>

lemma set_dofs_length: "length (set_dofs local_dof_indices v p) = length p"
  by (induction local_dof_indices arbitrary: p) auto

lemma set_dofs_nth:
  "i < length p \<Longrightarrow>
   set_dofs local_dof_indices v p ! i = (if i \<in> set local_dof_indices then v else p ! i)"
proof (induction local_dof_indices arbitrary: p)
  case Nil
  then show ?case by simp
next
  case (Cons k local_dof_indices)
  then show ?case
    by (cases "i = k") auto
qed

lemma impose_cells_length: "length (impose_cells max_value u cells p) = length p"
  by (induction cells arbitrary: p) (auto simp: set_dofs_length)

text \<open>Cells are written in turn, so a shared degree of freedom keeps what the last
  owned cell holding it wrote.\<close>

lemma impose_cells_nth:
  "i < length p \<Longrightarrow>
   impose_cells max_value u cells p ! i
   = (case last_owner_value max_value u cells i of Some v \<Rightarrow> v | None \<Rightarrow> p ! i)"
proof (induction cells arbitrary: p)
  case Nil
  then show ?case by simp
next
  case (Cons c cells)
  show ?case
  proof (cases "is_locally_owned c")
    case True
    let ?v = "if mean_phi_value (get_function_values c u) < 9 / 10 then max_value else 0"
    have len: "i < length (set_dofs (get_dof_indices c) ?v p)"
      using Cons.prems by (simp add: set_dofs_length)
    show ?thesis
      using True Cons.IH [OF len] Cons.prems
      by (simp add: set_dofs_nth split: option.splits)
  next
    case False
    then show ?thesis
      using Cons.IH [OF Cons.prems] by (simp split: option.splits)
  qed
qed

lemma update_pressure_owned:
  "pressure_owned_solution (update_pressure data t s)
   = replicate (length (pressure_owned_solution s)) (pressure_function data t)"
  by (simp add: update_pressure_def Let_def map_replicate_const)

lemma update_pressure_relevant:
  "pressure_relevant_solution (update_pressure data t s)
   = replicate (length (pressure_owned_solution s)) (pressure_function data t)"
  by (simp add: update_pressure_def Let_def map_replicate_const)

text \<open>
  Claim C5, as stated: once per time step every cell whose mean phase field is below
  the threshold gets the full pressure value at its degrees of freedom and every
  other cell gets zero. On the small instance the cell is intact (mean phase field 1,
  not below \<open>0.9\<close>), and the Newton loop of the pass is entered with the full value
  \<open>100000\<close> at both of its pressure degrees of freedom.
\<close>

theorem intact_cell_gets_full_pressure:
  "\<not> mean_phi_value (get_function_values sample_cell (solution sample_solid)) < 9 / 10
   \<and> get_dof_indices sample_cell = [0, 1]
   \<and> pressure_function sample_data (time sample_run_state) = 100000
   \<and> pressure_relevant_solution (newton_start (sample_env False) sample_data sample_run_state)
     = [100000, 100000]
   \<and> pressure_relevant_solution (newton_start (sample_env False) sample_data sample_run_state) ! 0
     \<noteq> 0"
  unfolding sample_newton_start
  by (simp add: mean_phi_value_def sample_cell_def sample_data_def sample_solid_def)

text \<open>
  Claim C5, amended. At every pass from the label \<^verbatim>\<open>redo_time_step\<close> (so at least once
  per time step) \<^verbatim>\<open>run\<close> writes the time-dependent pressure value into every entry of
  the owned and of the ghosted pressure vector, whatever the phase field, before it
  imposes the displacements and enters the Newton loop. The threshold rule is that of
  \<^verbatim>\<open>impose_pressure_values\<close>, which \<^verbatim>\<open>run\<close> does not call: there a pressure degree of
  freedom gets what the last locally owned cell holding it decides, the full value if
  the mean phase field of that cell is below \<open>0.9\<close> and zero otherwise, and keeps its
  value if no owned cell holds it.
\<close>

theorem pressure_update_is_uniform:
  "(\<forall>i < length (pressure_owned_solution s).
      pressure_owned_solution (update_pressure data t s) ! i = pressure_function data t
      \<and> pressure_relevant_solution (update_pressure data t s) ! i = pressure_function data t)
   \<and> newton_start env data r
       = impose_displacement_on_solution env data (time r) (update_pressure data (time r) (pds r))
   \<and> (\<forall>i < length (pressure_owned_solution s).
        pressure_owned_solution (impose_pressure_values cells max_value s) ! i
        = (case last_owner_value max_value (solution s) cells i of
             Some v \<Rightarrow> v | None \<Rightarrow> pressure_owned_solution s ! i))"
  by (simp add: update_pressure_owned update_pressure_relevant newton_start_def
      impose_pressure_values_def impose_cells_nth)

theorem pressure_update_is_uniform_witness:
  "(0::nat) < length (pressure_owned_solution sample_solid)
   \<and> pressure_owned_solution (update_pressure sample_data (1 / 100) sample_solid) ! 0 = 100000
   \<and> pressure_relevant_solution (update_pressure sample_data (1 / 100) sample_solid) ! 0 = 100000
   \<and> pressure_owned_solution (impose_pressure_values [sample_cell] 100000 sample_solid) ! 0 = 0"
proof -
  have len: "(0::nat) < length (pressure_owned_solution sample_solid)"
    by (simp add: sample_solid_def)
  have p: "pressure_function sample_data (1 / 100) = 100000"
    by (simp add: sample_data_def)
  have last: "last_owner_value 100000 (solution sample_solid) [sample_cell] 0 = Some 0"
    by (simp add: sample_cell_def mean_phi_value_def)
  note inst = pressure_update_is_uniform [of sample_solid sample_data "1 / 100"
      "sample_env False" sample_run_state "[sample_cell]" 100000]
  from inst have u: "\<forall>i < length (pressure_owned_solution sample_solid).
      pressure_owned_solution (update_pressure sample_data (1 / 100) sample_solid) ! i
        = pressure_function sample_data (1 / 100)
      \<and> pressure_relevant_solution (update_pressure sample_data (1 / 100) sample_solid) ! i
        = pressure_function sample_data (1 / 100)"
    by blast
  from inst have w: "\<forall>i < length (pressure_owned_solution sample_solid).
      pressure_owned_solution (impose_pressure_values [sample_cell] 100000 sample_solid) ! i
      = (case last_owner_value 100000 (solution sample_solid) [sample_cell] i of
           Some v \<Rightarrow> v | None \<Rightarrow> pressure_owned_solution sample_solid ! i)"
    by blast
  have "pressure_owned_solution (update_pressure sample_data (1 / 100) sample_solid) ! 0 = 100000
    \<and> pressure_relevant_solution (update_pressure sample_data (1 / 100) sample_solid) ! 0 = 100000
    \<and> pressure_owned_solution (impose_pressure_values [sample_cell] 100000 sample_solid) ! 0 = 0"
    using u [rule_format, OF len] w [rule_format, OF len] unfolding p last by simp
  with len show ?thesis
    by blast
qed

subsection \<open>The residual of one cell\<close>

lemma add_qpoint_length: "length (add_qpoint d gstp local_rhs qp) = length local_rhs"
  by (simp add: add_qpoint_def)

lemma foldl_add_qpoint_length:
  "length (foldl (add_qpoint d gstp) local_rhs qpoints) = length local_rhs"
  by (induction qpoints arbitrary: local_rhs) (auto simp: add_qpoint_length)

lemma foldl_add_qpoint_nth:
  "i < length local_rhs \<Longrightarrow>
   foldl (add_qpoint d gstp) local_rhs qpoints ! i
   = local_rhs ! i + (\<Sum>qp\<leftarrow>qpoints. local_rhs_summand d gstp qp i)"
proof (induction qpoints arbitrary: local_rhs)
  case Nil
  then show ?case by simp
next
  case (Cons qp qpoints)
  have "i < length (add_qpoint d gstp local_rhs qp)"
    using Cons.prems by (simp add: add_qpoint_length)
  from Cons.IH [OF this] show ?case
    using Cons.prems by (simp add: add_qpoint_def)
qed

lemma cell_local_rhs_nth:
  "i < dofs_per_cell \<Longrightarrow>
   cell_local_rhs d gstp dofs_per_cell qpoints ! i
   = (\<Sum>qp\<leftarrow>qpoints. local_rhs_summand d gstp qp i)"
  by (simp add: cell_local_rhs_def foldl_add_qpoint_nth)

text \<open>The summand of the source, with the factor of the tensile term written as the
  degradation function of the spec.\<close>

lemma local_rhs_summand_degradation:
  "local_rhs_summand d gstp qp i
   = (spec_degradation (spec_extrapolated_phi (old_phi_value qp) (old_old_phi_value qp))
        * dcontract d (fst (get_stress_decomposition d gstp (strain_tensor qp)))
            (symmetric_gradient qp i)
      + dcontract d (snd (get_stress_decomposition d gstp (strain_tensor qp)))
          (symmetric_gradient qp i)
      + (1 - kappa) * phi_value qp
        * dcontract d (fst (get_stress_decomposition d gstp (strain_tensor qp))) (strain_tensor qp)
        * shape_value qp i
      + gamma_c * (- 1 / e_reg * (1 - phi_value qp) * shape_value qp i
                   + e_reg * contract (grad_phi_value qp) (shape_gradient qp i)))
     * JxW qp"
  by (simp add: local_rhs_summand_def Let_def case_prod_beta spec_degradation_def
      spec_extrapolated_phi_def power2_eq_square mult.assoc)

lemma assemble_rhs_vector_Some:
  "assemble_rhs_vector d gstp n cells = Some local_rhs \<Longrightarrow>
   \<exists>qpoints. (True, qpoints) \<in> set cells \<and> local_rhs = cell_local_rhs d gstp n qpoints"
  by (induction cells) (auto split: if_splits)

text \<open>The two sample quadrature points, evaluated.\<close>

lemma dcontract_2:
  "dcontract 2 a b = a 0 0 * b 0 0 + a 0 1 * b 0 1 + a 1 0 * b 1 0 + a 1 1 * b 1 1"
  by (simp add: dcontract_def numeral_2_eq_2)

lemmas sample_summand_defs =
  local_rhs_summand_def Let_def case_prod_beta dcontract_2 stress_plus_entry stress_minus_entry
  get_strain_tensor_plus_def sum_less_2 trace_2 eigen_shear2_def eps_shear2_def tidentity_def
  mu_def lambda_def kappa_def gamma_c_def e_reg_def contract_def

lemma sample_local_rhs_summand:
  "local_rhs_summand 2 (get_strain_tensor_plus 2 eigen_shear2) sample_qpoint 0
     = - (2999999995997 / 8000000000)"
  "local_rhs_summand 2 (get_strain_tensor_plus 2 eigen_shear2) sample_qpoint (Suc 0)
     = - (992999999995999 / 8000000000)"
  by (simp_all add: sample_summand_defs sample_qpoint_def)

lemma sample_local_rhs_summand2:
  "local_rhs_summand 2 (get_strain_tensor_plus 2 eigen_shear2) sample_qpoint2 0
     = 999999999999 / 800000000"
  "local_rhs_summand 2 (get_strain_tensor_plus 2 eigen_shear2) sample_qpoint2 (Suc 0)
     = 16999999999991 / 4000000000"
  by (simp_all add: sample_summand_defs sample_qpoint2_def)

text \<open>At the two points the degradation factor is a quarter and nine quarters, up to
  the residual stiffness.\<close>

lemma sample_degradation:
  "spec_degradation (spec_extrapolated_phi (old_phi_value sample_qpoint)
     (old_old_phi_value sample_qpoint)) = 1 / 4 + 3 / 4 * kappa"
  "spec_degradation (spec_extrapolated_phi (old_phi_value sample_qpoint2)
     (old_old_phi_value sample_qpoint2)) = 9 / 4 - 5 / 4 * kappa"
  by (simp_all add: spec_degradation_def spec_extrapolated_phi_def sample_qpoint_def
      sample_qpoint2_def power2_eq_square field_simps)

text \<open>
  Claim C8. In the residual assembly the factor of the tensile stress term is
  \<open>(1 - kappa) phi_e\<^sup>2 + kappa\<close>, with \<open>phi_e = phi_old + (phi_old - phi_old_old)\<close> the
  phase field extrapolated from the two previous solutions, at every quadrature
  point of the cell that is assembled: every entry of the local residual is the sum
  over the quadrature points of that factor times the contraction of the tensile
  stress with the virtual strain, plus the terms that carry no such factor, times
  the weight.
\<close>

theorem degradation_factor_in_local_rhs:
  assumes "assemble_rhs_vector d gstp dofs_per_cell cells = Some local_rhs"
    and "i < dofs_per_cell"
  shows "\<exists>qpoints. (True, qpoints) \<in> set cells \<and>
     local_rhs ! i =
       (\<Sum>qp\<leftarrow>qpoints.
          (spec_degradation (spec_extrapolated_phi (old_phi_value qp) (old_old_phi_value qp))
             * dcontract d (fst (get_stress_decomposition d gstp (strain_tensor qp)))
                 (symmetric_gradient qp i)
           + dcontract d (snd (get_stress_decomposition d gstp (strain_tensor qp)))
               (symmetric_gradient qp i)
           + (1 - kappa) * phi_value qp
             * dcontract d (fst (get_stress_decomposition d gstp (strain_tensor qp)))
                 (strain_tensor qp)
             * shape_value qp i
           + gamma_c * (- 1 / e_reg * (1 - phi_value qp) * shape_value qp i
                        + e_reg * contract (grad_phi_value qp) (shape_gradient qp i)))
          * JxW qp)"
proof -
  from assemble_rhs_vector_Some [OF assms(1)]
  obtain qpoints where q: "(True, qpoints) \<in> set cells"
    "local_rhs = cell_local_rhs d gstp dofs_per_cell qpoints"
    by blast
  have "local_rhs ! i = (\<Sum>qp\<leftarrow>qpoints. local_rhs_summand d gstp qp i)"
    using q(2) assms(2) by (simp add: cell_local_rhs_nth)
  then show ?thesis
    using q(1) by (auto simp: local_rhs_summand_degradation)
qed

theorem degradation_factor_in_local_rhs_witness:
  "assemble_rhs_vector 2 (get_strain_tensor_plus 2 eigen_shear2) 2
       [(False, []), (True, [sample_qpoint, sample_qpoint2])]
     = Some [7000000003993 / 8000000000, - (958999999996017 / 8000000000)]
   \<and> (1::nat) < 2
   \<and> (\<exists>qpoints. (True, qpoints) \<in> set [(False, []), (True, [sample_qpoint, sample_qpoint2])] \<and>
     [7000000003993 / 8000000000, - (958999999996017 / 8000000000)] ! 1 =
       (\<Sum>qp\<leftarrow>qpoints.
          (spec_degradation (spec_extrapolated_phi (old_phi_value qp) (old_old_phi_value qp))
             * dcontract 2 (fst (get_stress_decomposition 2 (get_strain_tensor_plus 2 eigen_shear2)
                 (strain_tensor qp))) (symmetric_gradient qp 1)
           + dcontract 2 (snd (get_stress_decomposition 2 (get_strain_tensor_plus 2 eigen_shear2)
               (strain_tensor qp))) (symmetric_gradient qp 1)
           + (1 - kappa) * phi_value qp
             * dcontract 2 (fst (get_stress_decomposition 2 (get_strain_tensor_plus 2 eigen_shear2)
                 (strain_tensor qp))) (strain_tensor qp)
             * shape_value qp 1
           + gamma_c * (- 1 / e_reg * (1 - phi_value qp) * shape_value qp 1
                        + e_reg * contract (grad_phi_value qp) (shape_gradient qp 1)))
          * JxW qp))"
proof -
  have h: "assemble_rhs_vector 2 (get_strain_tensor_plus 2 eigen_shear2) 2
       [(False, []), (True, [sample_qpoint, sample_qpoint2])]
     = Some [7000000003993 / 8000000000, - (958999999996017 / 8000000000)]"
  proof -
    have two: "[0..<2] = [0, Suc 0]" "replicate 2 (0::real) = [0, 0]"
      by (simp_all add: numeral_2_eq_2)
    show ?thesis
      by (simp add: cell_local_rhs_def add_qpoint_def two sample_local_rhs_summand
          sample_local_rhs_summand2)
  qed
  have one: "(1::nat) < 2"
    by simp
  from degradation_factor_in_local_rhs [OF h one] h one show ?thesis
    by blast
qed

end
